theory Spec2Isabelle
  imports Main
begin

section \<open>The Zuul executor server (zuul/executor/server.py)\<close>

text \<open>
  A shallow embedding of the parts of \<^verbatim>\<open>zuul/executor/server.py\<close> that decide how a job
  is prepared and run: the deduplicating update queue and its consumer loop, the branch
  checkout fallback, playbook and role resolution, the supervision of one Ansible run and
  the composition of the pre, main and post phases.

  Python values are modelled as follows. A value that may be \<^verbatim>\<open>None\<close> is an
  \<open>option\<close>. An exception is the left summand of a sum type. Objects that are mutated
  are records that are passed in and returned. Everything outside the file (the
  operating system, the merger, the Ansible subprocess) is a parameter.
\<close>

subsection \<open>Exceptions\<close>

text \<open>
  \<^verbatim>\<open>ExecutorError\<close> is the executor's own non-transient error; every other exception
  that the code can meet is \<^verbatim>\<open>OtherException\<close>.
\<close>

datatype error = ExecutorError string | OtherException string

subsection \<open>Python helpers\<close>

text \<open>\<^verbatim>\<open>x in xs\<close> for a list of strings and a value that may be \<^verbatim>\<open>None\<close>.\<close>

definition py_in :: "string option \<Rightarrow> string list \<Rightarrow> bool" where
  "py_in x xs = (case x of None \<Rightarrow> False | Some b \<Rightarrow> b \<in> set xs)"

text \<open>Truth value of a string or \<^verbatim>\<open>None\<close>: both \<^verbatim>\<open>None\<close> and \<^verbatim>\<open>''\<close> are false.\<close>

definition py_bool_str :: "string option \<Rightarrow> bool" where
  "py_bool_str x = (case x of None \<Rightarrow> False | Some b \<Rightarrow> b \<noteq> [])"

text \<open>\<^verbatim>\<open>'%s' % x\<close> for a string or \<^verbatim>\<open>None\<close>.\<close>

definition py_str :: "string option \<Rightarrow> string" where
  "py_str x = (case x of None \<Rightarrow> ''None'' | Some b \<Rightarrow> b)"

subsection \<open>AnsibleJob.checkoutBranch\<close>

text \<open>
  The repository object of the merger, as far as \<^verbatim>\<open>checkoutBranch\<close> uses it:
  \<^verbatim>\<open>getBranches()\<close> reads \<open>branches\<close>, \<^verbatim>\<open>checkoutLocalBranch(b)\<close> sets \<open>checked_out\<close>.
\<close>

record Repo =
  branches :: "string list"
  checked_out :: "string option"

definition checkoutLocalBranch :: "string option \<Rightarrow> Repo \<Rightarrow> Repo" where
  "checkoutLocalBranch b repo = repo\<lparr>checked_out := b\<rparr>"

definition checkoutBranch ::
  "Repo \<Rightarrow> string \<Rightarrow> string option \<Rightarrow> string option \<Rightarrow> string option \<Rightarrow> string option
    \<Rightarrow> error + Repo" where
  "checkoutBranch repo project_name zuul_branch job_branch project_override_branch
       project_default_branch =
     (if py_in project_override_branch (branches repo)
        then Inr (checkoutLocalBranch project_override_branch repo)
      else if py_in job_branch (branches repo)
        then Inr (checkoutLocalBranch job_branch repo)
      else if py_bool_str zuul_branch \<and> py_in zuul_branch (branches repo)
        then Inr (checkoutLocalBranch zuul_branch repo)
      else if py_in project_default_branch (branches repo)
        then Inr (checkoutLocalBranch project_default_branch repo)
      else Inl (ExecutorError (''Project '' @ project_name @ '' does not have the ''
                  @ ''default branch '' @ py_str project_default_branch)))"

text \<open>
  The specification's reading: the first candidate of a list that is a branch of the
  repository.
\<close>

fun first_existing :: "string option list \<Rightarrow> string list \<Rightarrow> string option" where
  "first_existing [] bs = None"
| "first_existing (c # cs) bs = (if py_in c bs then c else first_existing cs bs)"

subsection \<open>UpdateTask and DeduplicateQueue\<close>

text \<open>
  An \<^verbatim>\<open>UpdateTask\<close> carries its key and its own \<^verbatim>\<open>threading.Event\<close>. The event is
  an object of its own; \<open>event\<close> is its identity, and the events on which \<^verbatim>\<open>set()\<close> has
  been called are kept in the server state below.
\<close>

record UpdateTask =
  connection_name :: string
  project_name :: string
  event :: nat

text \<open>
  \<^verbatim>\<open>UpdateTask.__eq__\<close>: the other operand may be \<^verbatim>\<open>None\<close> (the stop request in the
  queue), which is false in \<^verbatim>\<open>other and ...\<close>.
\<close>

definition UpdateTask_eq :: "UpdateTask \<Rightarrow> UpdateTask option \<Rightarrow> bool" where
  "UpdateTask_eq self other =
     (case other of
        None \<Rightarrow> False
      | Some t \<Rightarrow> connection_name t = connection_name self
                  \<and> project_name t = project_name self)"

text \<open>
  \<^verbatim>\<open>item == x\<close> as Python evaluates it: the \<^verbatim>\<open>__eq__\<close> of the left operand, and for
  a left operand \<^verbatim>\<open>None\<close> the reflected \<^verbatim>\<open>__eq__\<close> of a task on the right.
\<close>

definition item_eq :: "UpdateTask option \<Rightarrow> UpdateTask option \<Rightarrow> bool" where
  "item_eq item x =
     (case item of
        Some t \<Rightarrow> UpdateTask_eq t x
      | None \<Rightarrow> (case x of None \<Rightarrow> True | Some u \<Rightarrow> UpdateTask_eq u None))"

text \<open>
  The queue holds tasks and \<^verbatim>\<open>None\<close>; \<open>notified\<close> counts the calls of
  \<^verbatim>\<open>condition.notify()\<close>.
\<close>

record DeduplicateQueue =
  queue :: "UpdateTask option list"
  notified :: nat

definition qsize :: "DeduplicateQueue \<Rightarrow> nat" where
  "qsize q = length (queue q)"

text \<open>The \<^verbatim>\<open>for x in self.queue\<close> loop of \<^verbatim>\<open>put\<close>; it has no \<^verbatim>\<open>break\<close>.\<close>

fun put_scan :: "UpdateTask option \<Rightarrow> UpdateTask option list \<Rightarrow> UpdateTask option
    \<Rightarrow> UpdateTask option" where
  "put_scan item [] ret = ret"
| "put_scan item (x # xs) ret = put_scan item xs (if item_eq item x then x else ret)"

definition put :: "UpdateTask option \<Rightarrow> DeduplicateQueue
    \<Rightarrow> UpdateTask option \<times> DeduplicateQueue" where
  "put item q =
     (let ret = put_scan item (queue q) None
      in if ret = None
         then (item, q\<lparr>queue := queue q @ [item], notified := Suc (notified q)\<rparr>)
         else (ret, q))"

text \<open>
  \<^verbatim>\<open>get\<close> pops the leftmost item; on an empty queue it waits on the condition, which
  is the result \<open>None\<close> here.
\<close>

definition get :: "DeduplicateQueue \<Rightarrow> (UpdateTask option \<times> DeduplicateQueue) option" where
  "get q = (case queue q of [] \<Rightarrow> None | x # xs \<Rightarrow> Some (x, q\<lparr>queue := xs\<rparr>))"

text \<open>The key of a task, on which \<^verbatim>\<open>__eq__\<close> compares.\<close>

definition task_key :: "UpdateTask \<Rightarrow> string \<times> string" where
  "task_key t = (connection_name t, project_name t)"

subsection \<open>ExecutorServer: the update loop\<close>

text \<open>
  The state of the server that the update thread touches. \<open>events_set\<close> holds the events
  on which \<^verbatim>\<open>set()\<close> was called, \<open>merger\<close> is the state of the merger and its
  repository cache, \<open>server_log\<close> the messages logged.
\<close>

record 'm ExecutorServer =
  running :: bool
  update_queue :: DeduplicateQueue
  events_set :: "nat set"
  merger :: 'm
  server_log :: "string list"

text \<open>\<^verbatim>\<open>UpdateTask.setComplete\<close> and \<^verbatim>\<open>UpdateTask.wait\<close> (true when the wait returns).\<close>

definition setComplete :: "UpdateTask \<Rightarrow> 'm ExecutorServer \<Rightarrow> 'm ExecutorServer" where
  "setComplete task s = s\<lparr>events_set := insert (event task) (events_set s)\<rparr>"

definition wait :: "UpdateTask \<Rightarrow> 'm ExecutorServer \<Rightarrow> bool" where
  "wait task s = (event task \<in> events_set s)"

definition log_msg :: "string \<Rightarrow> 'm ExecutorServer \<Rightarrow> 'm ExecutorServer" where
  "log_msg m s = s\<lparr>server_log := server_log s @ [m]\<rparr>"

text \<open>
  \<^verbatim>\<open>_innerUpdateLoop\<close>. \<open>updateRepo\<close> is \<^verbatim>\<open>self.merger.updateRepo\<close>, which may raise.
  The result is \<open>None\<close> when \<^verbatim>\<open>get\<close> waits. \<^verbatim>\<open>task.setComplete()\<close> comes after the
  \<^verbatim>\<open>with\<close> block, so an exception of \<open>updateRepo\<close> leaves the function before it.
\<close>

definition innerUpdateLoop ::
  "(string \<Rightarrow> string \<Rightarrow> 'm \<Rightarrow> (error + unit) \<times> 'm) \<Rightarrow> 'm ExecutorServer
    \<Rightarrow> ((error + unit) \<times> 'm ExecutorServer) option" where
  "innerUpdateLoop updateRepo s =
     (case get (update_queue s) of
        None \<Rightarrow> None
      | Some (None, q) \<Rightarrow> Some (Inr (), s\<lparr>update_queue := q\<rparr>)
      | Some (Some task, q) \<Rightarrow>
          (let s1 = log_msg (''Updating repo '' @ connection_name task @ ''/''
                       @ project_name task) (s\<lparr>update_queue := q\<rparr>)
           in case updateRepo (connection_name task) (project_name task) (merger s1) of
                (Inl e, m) \<Rightarrow> Some (Inl e, s1\<lparr>merger := m\<rparr>)
              | (Inr u, m) \<Rightarrow>
                  Some (Inr (), setComplete task
                     (log_msg (''Finished updating repo '' @ connection_name task @ ''/''
                        @ project_name task) (s1\<lparr>merger := m\<rparr>)))))"

lemma innerUpdateLoop_pops:
  "innerUpdateLoop updateRepo s = Some (r, s')
   \<Longrightarrow> length (queue (update_queue s')) < length (queue (update_queue s))"
  by (auto simp: innerUpdateLoop_def get_def setComplete_def log_msg_def Let_def
      split: list.splits option.splits prod.splits sum.splits)

text \<open>
  \<^verbatim>\<open>_updateLoop\<close>: while \<^verbatim>\<open>self._running\<close>, run the body and log any exception. Nothing
  else runs in this model, so the loop ends where the thread would wait on the empty
  queue.
\<close>

function updateLoop ::
  "(string \<Rightarrow> string \<Rightarrow> 'm \<Rightarrow> (error + unit) \<times> 'm) \<Rightarrow> 'm ExecutorServer
    \<Rightarrow> 'm ExecutorServer" where
  "updateLoop updateRepo s =
     (if \<not> running s then s
      else case innerUpdateLoop updateRepo s of
             None \<Rightarrow> s
           | Some (Inr u, s') \<Rightarrow> updateLoop updateRepo s'
           | Some (Inl e, s') \<Rightarrow>
               updateLoop updateRepo (log_msg ''Exception in update thread:'' s'))"
  by pat_completeness auto
termination
  by (relation "measure (\<lambda>(u, s). length (queue (update_queue s)))")
     (auto dest: innerUpdateLoop_pops simp: log_msg_def)

text \<open>\<^verbatim>\<open>ExecutorServer.update\<close>: a new task, with a new event, is offered to the queue.\<close>

definition update :: "string \<Rightarrow> string \<Rightarrow> nat \<Rightarrow> 'm ExecutorServer
    \<Rightarrow> UpdateTask option \<times> 'm ExecutorServer" where
  "update cn pn new_event s =
     (case put (Some \<lparr>connection_name = cn, project_name = pn, event = new_event\<rparr>)
             (update_queue s) of
        (task, q) \<Rightarrow> (task, s\<lparr>update_queue := q\<rparr>))"

subsection \<open>More Python helpers: strings and paths\<close>

text \<open>\<^verbatim>\<open>s.startswith(p)\<close> and \<^verbatim>\<open>s.endswith(p)\<close>.\<close>

definition startswith :: "string \<Rightarrow> string \<Rightarrow> bool" where
  "startswith s p = (take (length p) s = p)"

definition endswith :: "string \<Rightarrow> string \<Rightarrow> bool" where
  "endswith s p = (length p \<le> length s \<and> drop (length s - length p) s = p)"

text \<open>\<^verbatim>\<open>'%i' % n\<close> for a natural number.\<close>

definition digit_char :: "nat \<Rightarrow> char" where
  "digit_char d = ''0123456789'' ! d"

fun string_of_nat :: "nat \<Rightarrow> string" where
  "string_of_nat n =
     (if n < 10 then [digit_char n] else string_of_nat (n div 10) @ [digit_char (n mod 10)])"

declare string_of_nat.simps [simp del]

text \<open>\<^verbatim>\<open>str(b)\<close> for a Boolean.\<close>

definition str_bool :: "bool \<Rightarrow> string" where
  "str_bool b = (if b then ''True'' else ''False'')"

text \<open>
  \<^verbatim>\<open>os.path.join\<close> of \<^verbatim>\<open>posixpath\<close>, for two arguments and for a list of further
  components: an absolute component discards what stands before it.
\<close>

definition path_join :: "string \<Rightarrow> string \<Rightarrow> string" where
  "path_join a b =
     (if startswith b ''/'' then b
      else if a = [] \<or> endswith a ''/'' then a @ b
      else a @ ''/'' @ b)"

definition path_joins :: "string \<Rightarrow> string list \<Rightarrow> string" where
  "path_joins a bs = foldl path_join a bs"

text \<open>\<^verbatim>\<open>os.path.dirname\<close> of \<^verbatim>\<open>posixpath\<close>.\<close>

definition rstrip_slash :: "string \<Rightarrow> string" where
  "rstrip_slash s = rev (dropWhile (\<lambda>c. c = CHR ''/'') (rev s))"

definition path_dirname :: "string \<Rightarrow> string" where
  "path_dirname p =
     (let head = rev (dropWhile (\<lambda>c. c \<noteq> CHR ''/'') (rev p))
      in if head \<noteq> [] \<and> head \<noteq> replicate (length head) CHR ''/''
         then rstrip_slash head else head)"

subsection \<open>The job directory\<close>

text \<open>
  \<^verbatim>\<open>JobDirPlaybook\<close>. Attributes that start as \<^verbatim>\<open>None\<close> are options.
\<close>

record JobDirPlaybook =
  root :: string
  trusted :: "bool option"
  branch :: "string option"
  canonical_name_and_path :: "string option"
  path :: "string option"
  roles :: "string list"
  roles_path :: "string list"
  ansible_config :: string
  project_link :: string

definition new_JobDirPlaybook :: "string \<Rightarrow> JobDirPlaybook" where
  "new_JobDirPlaybook r =
     \<lparr>root = r, trusted = None, branch = None, canonical_name_and_path = None,
      path = None, roles = [], roles_path = [],
      ansible_config = path_join r ''ansible.cfg'',
      project_link = path_join r ''project''\<rparr>"

text \<open>
  \<^verbatim>\<open>JobDir\<close>; its attribute \<^verbatim>\<open>root\<close> is \<open>job_root\<close> here. The dictionary
  \<^verbatim>\<open>trusted_project_index\<close> is an association list in which the first entry of a key
  counts.
\<close>

record JobDir =
  keep :: bool
  job_root :: string
  work_root :: string
  src_root :: string
  log_root :: string
  ansible_root :: string
  trusted_root :: string
  result_data_file :: string
  known_hosts :: string
  inventory :: string
  secrets :: string
  has_secrets :: bool
  playbooks :: "JobDirPlaybook list"
  playbook :: "JobDirPlaybook option"
  pre_playbooks :: "JobDirPlaybook list"
  post_playbooks :: "JobDirPlaybook list"
  job_output_file :: string
  trusted_projects :: "string list"
  trusted_project_index :: "((string \<times> string option) \<times> string) list"

subsection \<open>The environment of a job\<close>

text \<open>
  A project as the connection registry describes it
  (\<^verbatim>\<open>connections.getSource(c).getProject(p)\<close>).
\<close>

record Project =
  canonical_name :: string
  canonical_hostname :: string
  name :: string
  project_connection_name :: string

text \<open>
  What one run of the Ansible subprocess yields: the lines read from its output, the
  status that \<^verbatim>\<open>proc.wait()\<close> returns, and the value of \<^verbatim>\<open>watchdog.timed_out\<close> when
  \<^verbatim>\<open>runAnsible\<close> reads it (\<^verbatim>\<open>None\<close> as long as the watchdog thread has not decided).
\<close>

record proc_result =
  stdout_lines :: "string list"
  returncode :: int
  watchdog_timed_out :: "bool option"

text \<open>
  Everything outside the file is a parameter. \<open>'w\<close> is the state of the world (the file
  system, the remote nodes, the other threads). Functions that read take the world, those
  that write return the new one. \<^verbatim>\<open>os.symlink\<close> raises when the link path exists
  already, so \<open>symlink\<close> may return an exception instead.
\<close>

record 'w env =
  path_exists :: "'w \<Rightarrow> string \<Rightarrow> bool"
  path_isdir :: "'w \<Rightarrow> string \<Rightarrow> bool"
  listdir :: "'w \<Rightarrow> string \<Rightarrow> string list"
  path_abspath :: "'w \<Rightarrow> string \<Rightarrow> string"
  path_realpath :: "'w \<Rightarrow> string \<Rightarrow> string"
  makedirs :: "string \<Rightarrow> 'w \<Rightarrow> 'w"
  symlink :: "string \<Rightarrow> string \<Rightarrow> 'w \<Rightarrow> error + 'w"
  write_file :: "string \<Rightarrow> string list \<Rightarrow> 'w \<Rightarrow> 'w"
  append_file :: "string \<Rightarrow> string list \<Rightarrow> 'w \<Rightarrow> 'w"
  getProject :: "string \<Rightarrow> string \<Rightarrow> Project"
  merger_checkoutBranch :: "string \<Rightarrow> string \<Rightarrow> string \<Rightarrow> string option \<Rightarrow> 'w \<Rightarrow> 'w"
  is_aborted :: "'w \<Rightarrow> bool"
  run_proc :: "string option list \<Rightarrow> string \<Rightarrow> bool option \<Rightarrow> 'w \<Rightarrow> proc_result \<times> 'w"
  verbose :: bool
  library_dir :: string
  action_dir :: string
  callback_dir :: string
  lookup_dir :: string

text \<open>
  One call of \<^verbatim>\<open>runAnsiblePlaybook\<close> with what it returned, as the debug log of the job
  records it.
\<close>

record ansible_run =
  run_playbook :: JobDirPlaybook
  run_success :: "bool option"
  run_phase :: "string option"
  run_index :: "nat option"
  run_result :: int
  run_code :: "int option"

text \<open>
  The state of an \<^verbatim>\<open>AnsibleJob\<close>: its job directory, the world, and the calls of
  \<^verbatim>\<open>runAnsiblePlaybook\<close> so far.
\<close>

record 'w AnsibleJob =
  jobdir :: JobDir
  world :: 'w
  ansible_runs :: "ansible_run list"

subsection \<open>AnsibleJob.runAnsible\<close>

definition BUFFER_LINES_FOR_SYNTAX :: nat where
  "BUFFER_LINES_FOR_SYNTAX = 200"

definition RESULT_NORMAL :: int where "RESULT_NORMAL = 1"
definition RESULT_TIMED_OUT :: int where "RESULT_TIMED_OUT = 2"
definition RESULT_UNREACHABLE :: int where "RESULT_UNREACHABLE = 3"
definition RESULT_ABORTED :: int where "RESULT_ABORTED = 4"

definition RESULT_MAP :: "int \<rightharpoonup> string" where
  "RESULT_MAP = map_of
     [(RESULT_NORMAL, ''RESULT_NORMAL''),
      (RESULT_TIMED_OUT, ''RESULT_TIMED_OUT''),
      (RESULT_UNREACHABLE, ''RESULT_UNREACHABLE''),
      (RESULT_ABORTED, ''RESULT_ABORTED'')]"

text \<open>Truth value of \<^verbatim>\<open>timeout\<close>: \<^verbatim>\<open>None\<close> and 0 are false.\<close>

definition py_bool_int :: "int option \<Rightarrow> bool" where
  "py_bool_int x = (case x of None \<Rightarrow> False | Some n \<Rightarrow> n \<noteq> 0)"

text \<open>
  The output of the subprocess is read as bytes, and a line keeps its line end. Formatting
  a bytes object with \<^verbatim>\<open>str.format\<close> gives its \<^verbatim>\<open>repr\<close>: the letter b, a quote, the
  bytes with backslash escapes, and the quote again. The quote is the single quote, unless
  the bytes hold a single quote and no double quote. A character is a byte here.
\<close>

definition hex_digit :: "nat \<Rightarrow> char" where
  "hex_digit d = ''0123456789abcdef'' ! d"

definition bytes_repr_char :: "char \<Rightarrow> char \<Rightarrow> string" where
  "bytes_repr_char quote c =
     (if c = quote \<or> c = CHR 0x5C then [CHR 0x5C, c]
      else if c = CHR 0x09 then [CHR 0x5C, CHR ''t'']
      else if c = CHR 0x0A then [CHR 0x5C, CHR ''n'']
      else if c = CHR 0x0D then [CHR 0x5C, CHR ''r'']
      else if (of_char c :: nat) < 32 \<or> 127 \<le> (of_char c :: nat)
        then [CHR 0x5C, CHR ''x'', hex_digit ((of_char c :: nat) div 16),
              hex_digit ((of_char c :: nat) mod 16)]
      else [c])"

definition bytes_repr :: "string \<Rightarrow> string" where
  "bytes_repr bs =
     (let quote = (if CHR 0x27 \<in> set bs \<and> CHR 0x22 \<notin> set bs then CHR 0x22 else CHR 0x27)
      in ''b'' @ [quote] @ concat (map (bytes_repr_char quote) bs) @ [quote])"

text \<open>
  What \<^verbatim>\<open>runAnsible\<close> appends to the job output file after exit status 4, one string
  for each call of \<^verbatim>\<open>job_output.write\<close>. Each string starts with the time of writing,
  which is left out here; what follows the time is written as the code formats it, a
  buffered line as the \<^verbatim>\<open>repr\<close> of its bytes, and ends with a line end.
\<close>

definition parse_error_lines :: "string list \<Rightarrow> string list" where
  "parse_error_lines syntax_buffer =
     ('' | ANSIBLE PARSE ERROR'' @ [CHR 0x0A])
     # map (\<lambda>line. '' | '' @ bytes_repr line @ [CHR 0x0A]) syntax_buffer"

text \<open>
  \<^verbatim>\<open>runAnsible\<close>. The subprocess is started only when no abort was requested. The
  loop over the output keeps the first \<^verbatim>\<open>BUFFER_LINES_FOR_SYNTAX\<close> lines.
\<close>

definition runAnsible ::
  "'w env \<Rightarrow> string option list \<Rightarrow> int option \<Rightarrow> string \<Rightarrow> bool option \<Rightarrow> 'w AnsibleJob
    \<Rightarrow> (int \<times> int option) \<times> 'w AnsibleJob" where
  "runAnsible e cmd timeout config_file is_trusted s =
     (if is_aborted e (world s) then ((RESULT_ABORTED, None), s)
      else
        case run_proc e cmd config_file is_trusted (world s) of
          (p, w) \<Rightarrow>
            (let syntax_buffer = take BUFFER_LINES_FOR_SYNTAX (stdout_lines p);
                 ret = returncode p;
                 s1 = s\<lparr>world := w\<rparr>
             in if py_bool_int timeout \<and> watchdog_timed_out p = Some True
                  then ((RESULT_TIMED_OUT, None), s1)
                else if ret = 3 then ((RESULT_UNREACHABLE, None), s1)
                else if ret = - 9 then ((RESULT_ABORTED, None), s1)
                else if ret = 4
                  then ((RESULT_NORMAL, Some ret),
                        s1\<lparr>world := append_file e (job_output_file (jobdir s1))
                                     (parse_error_lines syntax_buffer) w\<rparr>)
                else ((RESULT_NORMAL, Some ret), s1)))"

subsection \<open>AnsibleJob.runAnsiblePlaybook\<close>

definition playbook_cmd ::
  "'w env \<Rightarrow> JobDir \<Rightarrow> JobDirPlaybook \<Rightarrow> bool option \<Rightarrow> string option \<Rightarrow> nat option
    \<Rightarrow> string option list" where
  "playbook_cmd e jd pb success phase index =
     [Some ''ansible-playbook'', Some (if verbose e then ''-vvv'' else ''-v''), path pb]
     @ (if has_secrets jd then [Some ''-e'', Some (''@'' @ secrets jd)] else [])
     @ (case success of None \<Rightarrow> []
        | Some b \<Rightarrow> [Some ''-e'', Some (''success='' @ str_bool b)])
     @ (if py_bool_str phase
        then [Some ''-e'', Some (''zuul_execution_phase='' @ py_str phase)] else [])
     @ (case index of None \<Rightarrow> []
        | Some i \<Rightarrow> [Some ''-e'', Some (''zuul_execution_phase_index='' @ string_of_nat i)])"

definition runAnsiblePlaybook ::
  "'w env \<Rightarrow> JobDirPlaybook \<Rightarrow> int option \<Rightarrow> bool option \<Rightarrow> string option \<Rightarrow> nat option
    \<Rightarrow> 'w AnsibleJob \<Rightarrow> (int \<times> int option) \<times> 'w AnsibleJob" where
  "runAnsiblePlaybook e pb timeout success phase index s =
     (case runAnsible e (playbook_cmd e (jobdir s) pb success phase index) timeout
             (ansible_config pb) (trusted pb) s of
        ((result, code), s') \<Rightarrow>
          ((result, code),
           s'\<lparr>ansible_runs := ansible_runs s' @
                [\<lparr>run_playbook = pb, run_success = success, run_phase = phase,
                  run_index = index, run_result = result, run_code = code\<rparr>]\<rparr>))"

subsection \<open>AnsibleJob.runPlaybooks\<close>

text \<open>
  The loop over the pre playbooks; the result is \<^verbatim>\<open>pre_failed\<close>. A code of \<^verbatim>\<open>None\<close>
  is not 0.
\<close>

fun run_pre_playbooks ::
  "'w env \<Rightarrow> int option \<Rightarrow> nat \<Rightarrow> JobDirPlaybook list \<Rightarrow> 'w AnsibleJob
    \<Rightarrow> bool \<times> 'w AnsibleJob" where
  "run_pre_playbooks e timeout index [] s = (False, s)"
| "run_pre_playbooks e timeout index (pb # pbs) s =
     (case runAnsiblePlaybook e pb timeout None (Some ''pre'') (Some index) s of
        ((pre_status, pre_code), s') \<Rightarrow>
          if pre_status \<noteq> RESULT_NORMAL \<or> pre_code \<noteq> Some 0 then (True, s')
          else run_pre_playbooks e timeout (Suc index) pbs s')"

text \<open>The loop over the post playbooks; it carries \<^verbatim>\<open>result\<close>.\<close>

fun run_post_playbooks ::
  "'w env \<Rightarrow> int option \<Rightarrow> bool \<Rightarrow> bool \<Rightarrow> nat \<Rightarrow> JobDirPlaybook list \<Rightarrow> string option
    \<Rightarrow> 'w AnsibleJob \<Rightarrow> string option \<times> 'w AnsibleJob" where
  "run_post_playbooks e timeout success pre_failed index [] result s = (result, s)"
| "run_post_playbooks e timeout success pre_failed index (pb # pbs) result s =
     (case runAnsiblePlaybook e pb timeout (Some success) (Some ''post'') (Some index) s of
        ((post_status, post_code), s') \<Rightarrow>
          run_post_playbooks e timeout success pre_failed (Suc index) pbs
            (if post_status \<noteq> RESULT_NORMAL \<or> post_code \<noteq> Some 0
             then (if \<not> pre_failed then Some ''POST_FAILURE'' else result)
             else result) s')"

text \<open>
  \<^verbatim>\<open>runPlaybooks\<close>; \<open>timeout\<close> is \<^verbatim>\<open>args['timeout']\<close>. Without a selected playbook
  the call of \<^verbatim>\<open>runAnsiblePlaybook\<close> on \<^verbatim>\<open>None\<close> raises.
\<close>

definition runPlaybooks ::
  "'w env \<Rightarrow> int option \<Rightarrow> 'w AnsibleJob \<Rightarrow> (error + string option) \<times> 'w AnsibleJob" where
  "runPlaybooks e timeout s =
     (case run_pre_playbooks e timeout 0 (pre_playbooks (jobdir s)) s of
        (pre_failed, s1) \<Rightarrow>
          if \<not> pre_failed then
            (case playbook (jobdir s1) of
               None \<Rightarrow> (Inl (OtherException ''AttributeError''), s1)
             | Some pb \<Rightarrow>
                 (case runAnsiblePlaybook e pb timeout None (Some ''run'') None s1 of
                    ((job_status, job_code), s2) \<Rightarrow>
                      if job_status = RESULT_TIMED_OUT then (Inr (Some ''TIMED_OUT''), s2)
                      else if job_status = RESULT_ABORTED then (Inr (Some ''ABORTED''), s2)
                      else if job_status \<noteq> RESULT_NORMAL then (Inr None, s2)
                      else
                        (let success = (job_code = Some 0);
                             result = (if success then Some ''SUCCESS'' else Some ''FAILURE'')
                         in case run_post_playbooks e timeout success False 0
                                   (post_playbooks (jobdir s2)) result s2 of
                              (r, s3) \<Rightarrow> (Inr r, s3))))
          else
            (case run_post_playbooks e timeout False True 0
                    (post_playbooks (jobdir s1)) None s1 of
               (r, s3) \<Rightarrow> (Inr r, s3)))"

subsection \<open>The arguments of a job\<close>

text \<open>
  The entries of the job's argument dictionary that the preparation reads: a role and a
  playbook as the scheduler describes them, an item of the change under test, and the
  lists of playbooks.
\<close>

record role_args =
  role_type :: string
  role_connection :: string
  role_project :: string
  role_target_name :: string

record playbook_args =
  arg_connection :: string
  arg_project :: string
  arg_path :: string
  arg_trusted :: bool
  arg_branch :: "string option"
  arg_roles :: "role_args list"

record item_args =
  item_connection :: string
  item_project :: string

record job_args =
  args_items :: "item_args list"
  args_pre_playbooks :: "playbook_args list"
  args_playbooks :: "playbook_args list"
  args_post_playbooks :: "playbook_args list"
  args_timeout :: "int option"

subsection \<open>JobDir and JobDirPlaybook: new slots\<close>

definition addTrustedProject ::
  "'w env \<Rightarrow> string \<Rightarrow> string option \<Rightarrow> 'w AnsibleJob \<Rightarrow> string \<times> 'w AnsibleJob" where
  "addTrustedProject e cn br s =
     (let jd = jobdir s;
          count = length (trusted_projects jd);
          r = path_join (trusted_root jd) (''project_'' @ string_of_nat count)
      in (r, s\<lparr>world := makedirs e r (world s),
               jobdir := jd\<lparr>trusted_projects := trusted_projects jd @ [r],
                    trusted_project_index := ((cn, br), r) # trusted_project_index jd\<rparr>\<rparr>))"

definition getTrustedProject :: "JobDir \<Rightarrow> string \<Rightarrow> string option \<Rightarrow> string option" where
  "getTrustedProject jd cn br = map_of (trusted_project_index jd) (cn, br)"

definition addPrePlaybook :: "'w env \<Rightarrow> 'w AnsibleJob \<Rightarrow> JobDirPlaybook \<times> 'w AnsibleJob" where
  "addPrePlaybook e s =
     (let jd = jobdir s;
          count = length (pre_playbooks jd);
          r = path_join (ansible_root jd) (''pre_playbook_'' @ string_of_nat count);
          pb = new_JobDirPlaybook r
      in (pb, s\<lparr>world := makedirs e r (world s),
                jobdir := jd\<lparr>pre_playbooks := pre_playbooks jd @ [pb]\<rparr>\<rparr>))"

definition addPostPlaybook :: "'w env \<Rightarrow> 'w AnsibleJob \<Rightarrow> JobDirPlaybook \<times> 'w AnsibleJob" where
  "addPostPlaybook e s =
     (let jd = jobdir s;
          count = length (post_playbooks jd);
          r = path_join (ansible_root jd) (''post_playbook_'' @ string_of_nat count);
          pb = new_JobDirPlaybook r
      in (pb, s\<lparr>world := makedirs e r (world s),
                jobdir := jd\<lparr>post_playbooks := post_playbooks jd @ [pb]\<rparr>\<rparr>))"

definition addPlaybook :: "'w env \<Rightarrow> 'w AnsibleJob \<Rightarrow> JobDirPlaybook \<times> 'w AnsibleJob" where
  "addPlaybook e s =
     (let jd = jobdir s;
          count = length (playbooks jd);
          r = path_join (ansible_root jd) (''playbook_'' @ string_of_nat count);
          pb = new_JobDirPlaybook r
      in (pb, s\<lparr>world := makedirs e r (world s),
                jobdir := jd\<lparr>playbooks := playbooks jd @ [pb]\<rparr>\<rparr>))"

text \<open>\<^verbatim>\<open>JobDirPlaybook.addRole\<close>: the new root, the playbook object and the world.\<close>

definition addRole :: "'w env \<Rightarrow> JobDirPlaybook \<Rightarrow> 'w \<Rightarrow> string \<times> JobDirPlaybook \<times> 'w" where
  "addRole e pb w =
     (let count = length (roles pb);
          r = path_join (root pb) (''role_'' @ string_of_nat count)
      in (r, pb\<lparr>roles := roles pb @ [r]\<rparr>, makedirs e r w))"

subsection \<open>AnsibleJob: finding playbooks and roles\<close>

text \<open>
  \<^verbatim>\<open>_blockPluginDirs\<close>. The loop tests \<^verbatim>\<open>os.path.isdir(entry)\<close> on the entry as
  \<^verbatim>\<open>os.listdir\<close> gives it, a bare name.
\<close>

fun blockPluginDirs_entries :: "'w env \<Rightarrow> 'w \<Rightarrow> string \<Rightarrow> string list \<Rightarrow> error + unit" where
  "blockPluginDirs_entries e w p [] = Inr ()"
| "blockPluginDirs_entries e w p (entry # entries) =
     (if path_isdir e w entry \<and> endswith entry ''_plugins''
      then Inl (ExecutorError (''Ansible plugin dir '' @ entry @ '' found adjacent to playbook ''
                  @ p @ '' in non-trusted repo.''))
      else blockPluginDirs_entries e w p entries)"

definition blockPluginDirs :: "'w env \<Rightarrow> 'w \<Rightarrow> string \<Rightarrow> error + unit" where
  "blockPluginDirs e w p = blockPluginDirs_entries e w p (listdir e w p)"

text \<open>\<^verbatim>\<open>findPlaybook\<close>: the loop over the extensions, then the code after it.\<close>

fun findPlaybook_exts ::
  "'w env \<Rightarrow> 'w \<Rightarrow> string \<Rightarrow> bool \<Rightarrow> bool \<Rightarrow> string list \<Rightarrow> error + string option" where
  "findPlaybook_exts e w p required is_trusted [] =
     (if required then Inl (ExecutorError (''Unable to find playbook '' @ p)) else Inr None)"
| "findPlaybook_exts e w p required is_trusted (ext # exts) =
     (let fn = p @ ext
      in if path_exists e w fn
         then (if \<not> is_trusted
               then (case blockPluginDirs e w (path_dirname (path_abspath e w fn)) of
                       Inl err \<Rightarrow> Inl err
                     | Inr u \<Rightarrow> Inr (Some fn))
               else Inr (Some fn))
         else findPlaybook_exts e w p required is_trusted exts)"

definition findPlaybook ::
  "'w env \<Rightarrow> 'w \<Rightarrow> string \<Rightarrow> bool \<Rightarrow> bool \<Rightarrow> error + string option" where
  "findPlaybook e w p required is_trusted =
     findPlaybook_exts e w p required is_trusted [''.yaml'', ''.yml'']"

text \<open>
  \<^verbatim>\<open>findRole\<close>; \<^verbatim>\<open>not trusted\<close> holds for \<^verbatim>\<open>False\<close> and for \<^verbatim>\<open>None\<close>. The result
  \<open>Inr None\<close> is a bare role.
\<close>

fun findRole_entries :: "'w env \<Rightarrow> 'w \<Rightarrow> string \<Rightarrow> string list \<Rightarrow> error + unit" where
  "findRole_entries e w d [] = Inr ()"
| "findRole_entries e w d (entry # entries) =
     (if path_isdir e w (path_join d entry)
      then (case blockPluginDirs e w (path_join d entry) of
              Inl err \<Rightarrow> Inl err
            | Inr u \<Rightarrow> findRole_entries e w d entries)
      else findRole_entries e w d entries)"

definition findRole :: "'w env \<Rightarrow> 'w \<Rightarrow> string \<Rightarrow> bool option \<Rightarrow> error + string option" where
  "findRole e w p is_trusted =
     (if path_isdir e w (path_join p ''tasks'')
      then (if is_trusted \<noteq> Some True
            then (case blockPluginDirs e w p of Inl err \<Rightarrow> Inl err | Inr u \<Rightarrow> Inr None)
            else Inr None)
      else if path_isdir e w (path_join p ''roles'')
      then (if is_trusted \<noteq> Some True
            then (case findRole_entries e w (path_join p ''roles'')
                         (listdir e w (path_join p ''roles'')) of
                    Inl err \<Rightarrow> Inl err
                  | Inr u \<Rightarrow> Inr (Some (path_join p ''roles'')))
            else Inr (Some (path_join p ''roles'')))
      else Inl (ExecutorError (''Unable to find role in '' @ p)))"

subsection \<open>AnsibleJob: preparing playbooks and roles\<close>

definition checkoutTrustedProject ::
  "'w env \<Rightarrow> Project \<Rightarrow> string option \<Rightarrow> 'w AnsibleJob \<Rightarrow> string \<times> 'w AnsibleJob" where
  "checkoutTrustedProject e project br s =
     (let found = getTrustedProject (jobdir s) (canonical_name project) br;
          (r, s1) =
            (if py_bool_str found then (py_str found, s)
             else (case addTrustedProject e (canonical_name project) br s of
                     (r, s') \<Rightarrow>
                       (r, s'\<lparr>world := merger_checkoutBranch e r
                                 (project_connection_name project) (name project) br
                                 (world s')\<rparr>)))
      in (path_joins r [canonical_hostname project, name project], s1))"

text \<open>
  Whether an item of the change under test is of the given connection and project: the
  loop over \<^verbatim>\<open>args['items']\<close> with its \<^verbatim>\<open>break\<close>.
\<close>

definition in_items :: "job_args \<Rightarrow> string \<Rightarrow> string \<Rightarrow> bool" where
  "in_items args c p =
     (\<exists>i \<in> set (args_items args). item_connection i = c \<and> item_project i = p)"

text \<open>
  \<^verbatim>\<open>prepareZuulRole\<close>. The error is raised with two arguments, so its first argument is
  the format string as it stands. An exception of \<^verbatim>\<open>os.symlink\<close> leaves the call before
  \<^verbatim>\<open>findRole\<close>.
\<close>

definition prepareZuulRole ::
  "'w env \<Rightarrow> JobDirPlaybook \<Rightarrow> role_args \<Rightarrow> job_args \<Rightarrow> string \<Rightarrow> 'w AnsibleJob
    \<Rightarrow> (error + unit) \<times> JobDirPlaybook \<times> 'w AnsibleJob" where
  "prepareZuulRole e jobdir_playbook role args r s =
     (let project = getProject e (role_connection role) (role_project role);
          nm = role_target_name role;
          path0 = (if trusted jobdir_playbook \<noteq> Some True
                     \<and> in_items args (role_connection role) (role_project role)
                   then Some (path_joins (src_root (jobdir s))
                                [canonical_hostname project, name project])
                   else None);
          (p, s1) = (if py_bool_str path0 then (py_str path0, s)
                     else checkoutTrustedProject e project (Some ''master'') s);
          link = path_realpath e (world s1) (path_join r nm)
      in if \<not> startswith link (path_realpath e (world s1) r)
         then (Inl (ExecutorError ''Invalid role name %s''), jobdir_playbook, s1)
         else
           (case symlink e p link (world s1) of
              Inl err \<Rightarrow> (Inl err, jobdir_playbook, s1)
            | Inr w \<Rightarrow>
                (let s2 = s1\<lparr>world := w\<rparr>
                 in case findRole e (world s2) link (trusted jobdir_playbook) of
                      Inl err \<Rightarrow> (Inl err, jobdir_playbook, s2)
                    | Inr role_path \<Rightarrow>
                        (Inr (),
                         jobdir_playbook\<lparr>roles_path := roles_path jobdir_playbook @
                            [case role_path of None \<Rightarrow> r | Some d \<Rightarrow> d]\<rparr>,
                         s2))))"

definition prepareRole ::
  "'w env \<Rightarrow> JobDirPlaybook \<Rightarrow> role_args \<Rightarrow> job_args \<Rightarrow> 'w AnsibleJob
    \<Rightarrow> (error + unit) \<times> JobDirPlaybook \<times> 'w AnsibleJob" where
  "prepareRole e jobdir_playbook role args s =
     (if role_type role = ''zuul''
      then (case addRole e jobdir_playbook (world s) of
              (r, pb, w) \<Rightarrow> prepareZuulRole e pb role args r (s\<lparr>world := w\<rparr>))
      else (Inr (), jobdir_playbook, s))"

text \<open>The loop over \<^verbatim>\<open>playbook['roles']\<close> in \<^verbatim>\<open>preparePlaybook\<close>.\<close>

fun prepareRoles ::
  "'w env \<Rightarrow> JobDirPlaybook \<Rightarrow> role_args list \<Rightarrow> job_args \<Rightarrow> 'w AnsibleJob
    \<Rightarrow> (error + unit) \<times> JobDirPlaybook \<times> 'w AnsibleJob" where
  "prepareRoles e jobdir_playbook [] args s = (Inr (), jobdir_playbook, s)"
| "prepareRoles e jobdir_playbook (role # rs) args s =
     (case prepareRole e jobdir_playbook role args s of
        (Inl err, pb, s') \<Rightarrow> (Inl err, pb, s')
      | (Inr u, pb, s') \<Rightarrow> prepareRoles e pb rs args s')"

text \<open>\<^verbatim>\<open>':'.join(xs)\<close>.\<close>

fun join_colon :: "string list \<Rightarrow> string" where
  "join_colon [] = []"
| "join_colon [x] = x"
| "join_colon (x # y # ys) = x @ '':'' @ join_colon (y # ys)"

text \<open>The lines that \<^verbatim>\<open>writeAnsibleConfig\<close> writes, without their line ends.\<close>

definition ansible_config_lines :: "'w env \<Rightarrow> JobDir \<Rightarrow> JobDirPlaybook \<Rightarrow> string list" where
  "ansible_config_lines e jd pb =
     [''[defaults]'',
      ''hostfile = '' @ inventory jd,
      ''local_tmp = '' @ job_root jd @ ''/.ansible/local_tmp'',
      ''remote_tmp = '' @ job_root jd @ ''/.ansible/remote_tmp'',
      ''retry_files_enabled = False'',
      ''gathering = explicit'',
      ''library = '' @ library_dir e,
      ''command_warnings = False'',
      ''callback_plugins = '' @ callback_dir e,
      ''stdout_callback = zuul_stream'',
      ''callback_whitelist = zuul_json'',
      ''timeout = 30'']
     @ (if trusted pb \<noteq> Some True
        then [''action_plugins = '' @ action_dir e, ''lookup_plugins = '' @ lookup_dir e]
        else [])
     @ (if roles_path pb \<noteq> [] then [''roles_path = '' @ join_colon (roles_path pb)] else [])
     @ [''display_args_to_stdout = '' @ str_bool (trusted pb \<noteq> Some True),
        ''[ssh_connection]'',
        ''pipelining = True'',
        ''ssh_args = -o ControlMaster=auto -o ControlPersist=60s -o UserKnownHostsFile=''
          @ known_hosts jd]"

definition writeAnsibleConfig :: "'w env \<Rightarrow> JobDirPlaybook \<Rightarrow> 'w AnsibleJob \<Rightarrow> 'w AnsibleJob" where
  "writeAnsibleConfig e pb s =
     s\<lparr>world := write_file e (ansible_config pb) (ansible_config_lines e (jobdir s) pb)
                   (world s)\<rparr>"

text \<open>
  \<^verbatim>\<open>preparePlaybook\<close>. The playbook object is returned as the call leaves it, also when
  the call raises.
\<close>

definition preparePlaybook ::
  "'w env \<Rightarrow> JobDirPlaybook \<Rightarrow> playbook_args \<Rightarrow> job_args \<Rightarrow> bool \<Rightarrow> 'w AnsibleJob
    \<Rightarrow> (error + unit) \<times> JobDirPlaybook \<times> 'w AnsibleJob" where
  "preparePlaybook e jobdir_playbook pa args required s =
     (let project = getProject e (arg_connection pa) (arg_project pa);
          pb1 = jobdir_playbook\<lparr>trusted := Some (arg_trusted pa), branch := arg_branch pa,
                  canonical_name_and_path :=
                    Some (path_join (canonical_name project) (arg_path pa))\<rparr>;
          path0 = (if \<not> arg_trusted pa \<and> in_items args (arg_connection pa) (arg_project pa)
                   then Some (path_joins (src_root (jobdir s))
                                [canonical_hostname project, name project, arg_path pa])
                   else None);
          (p, s1) = (if py_bool_str path0 then (py_str path0, s)
                     else (case checkoutTrustedProject e project (arg_branch pa) s of
                             (r, s') \<Rightarrow> (path_join r (arg_path pa), s')))
      in case findPlaybook e (world s1) p required (arg_trusted pa) of
           Inl err \<Rightarrow> (Inl err, pb1, s1)
         | Inr fn \<Rightarrow>
             (let pb2 = pb1\<lparr>path := fn\<rparr>
              in if \<not> py_bool_str fn then (Inr (), pb2, s1)
                 else (case prepareRoles e pb2 (arg_roles pa) args s1 of
                         (Inl err, pb3, s2) \<Rightarrow> (Inl err, pb3, s2)
                       | (Inr u, pb3, s2) \<Rightarrow> (Inr (), pb3, writeAnsibleConfig e pb3 s2))))"

text \<open>
  The lists of the job directory hold the playbook objects themselves, so what
  \<^verbatim>\<open>preparePlaybook\<close> does to an object shows in its list. The object was appended last.
\<close>

definition store_pre_playbook :: "JobDirPlaybook \<Rightarrow> 'w AnsibleJob \<Rightarrow> 'w AnsibleJob" where
  "store_pre_playbook pb s =
     s\<lparr>jobdir := (jobdir s)\<lparr>pre_playbooks := butlast (pre_playbooks (jobdir s)) @ [pb]\<rparr>\<rparr>"

definition store_playbook :: "JobDirPlaybook \<Rightarrow> 'w AnsibleJob \<Rightarrow> 'w AnsibleJob" where
  "store_playbook pb s =
     s\<lparr>jobdir := (jobdir s)\<lparr>playbooks := butlast (playbooks (jobdir s)) @ [pb]\<rparr>\<rparr>"

definition store_post_playbook :: "JobDirPlaybook \<Rightarrow> 'w AnsibleJob \<Rightarrow> 'w AnsibleJob" where
  "store_post_playbook pb s =
     s\<lparr>jobdir := (jobdir s)\<lparr>post_playbooks := butlast (post_playbooks (jobdir s)) @ [pb]\<rparr>\<rparr>"

text \<open>The three loops of \<^verbatim>\<open>preparePlaybooks\<close>.\<close>

fun prepare_pre_playbooks ::
  "'w env \<Rightarrow> job_args \<Rightarrow> playbook_args list \<Rightarrow> 'w AnsibleJob
    \<Rightarrow> (error + unit) \<times> 'w AnsibleJob" where
  "prepare_pre_playbooks e args [] s = (Inr (), s)"
| "prepare_pre_playbooks e args (pa # pas) s =
     (case addPrePlaybook e s of
        (jobdir_playbook, s1) \<Rightarrow>
          (case preparePlaybook e jobdir_playbook pa args True s1 of
             (Inl err, pb, s2) \<Rightarrow> (Inl err, store_pre_playbook pb s2)
           | (Inr u, pb, s2) \<Rightarrow> prepare_pre_playbooks e args pas (store_pre_playbook pb s2)))"

fun prepare_main_playbooks ::
  "'w env \<Rightarrow> job_args \<Rightarrow> playbook_args list \<Rightarrow> 'w AnsibleJob
    \<Rightarrow> (error + unit) \<times> 'w AnsibleJob" where
  "prepare_main_playbooks e args [] s = (Inr (), s)"
| "prepare_main_playbooks e args (pa # pas) s =
     (case addPlaybook e s of
        (jobdir_playbook, s1) \<Rightarrow>
          (case preparePlaybook e jobdir_playbook pa args False s1 of
             (Inl err, pb, s2) \<Rightarrow> (Inl err, store_playbook pb s2)
           | (Inr u, pb, s2) \<Rightarrow>
               (let s3 = store_playbook pb s2
                in if path pb \<noteq> None
                   then (Inr (), s3\<lparr>jobdir := (jobdir s3)\<lparr>playbook := Some pb\<rparr>\<rparr>)
                   else prepare_main_playbooks e args pas s3)))"

fun prepare_post_playbooks ::
  "'w env \<Rightarrow> job_args \<Rightarrow> playbook_args list \<Rightarrow> 'w AnsibleJob
    \<Rightarrow> (error + unit) \<times> 'w AnsibleJob" where
  "prepare_post_playbooks e args [] s = (Inr (), s)"
| "prepare_post_playbooks e args (pa # pas) s =
     (case addPostPlaybook e s of
        (jobdir_playbook, s1) \<Rightarrow>
          (case preparePlaybook e jobdir_playbook pa args True s1 of
             (Inl err, pb, s2) \<Rightarrow> (Inl err, store_post_playbook pb s2)
           | (Inr u, pb, s2) \<Rightarrow> prepare_post_playbooks e args pas (store_post_playbook pb s2)))"

definition preparePlaybooks ::
  "'w env \<Rightarrow> job_args \<Rightarrow> 'w AnsibleJob \<Rightarrow> (error + unit) \<times> 'w AnsibleJob" where
  "preparePlaybooks e args s =
     (case prepare_pre_playbooks e args (args_pre_playbooks args) s of
        (Inl err, s1) \<Rightarrow> (Inl err, s1)
      | (Inr u, s1) \<Rightarrow>
          (case prepare_main_playbooks e args (args_playbooks args) s1 of
             (Inl err, s2) \<Rightarrow> (Inl err, s2)
           | (Inr u, s2) \<Rightarrow>
               if playbook (jobdir s2) = None
               then (Inl (ExecutorError ''No valid playbook found''), s2)
               else prepare_post_playbooks e args (args_post_playbooks args) s2))"

subsection \<open>Reading the record of runs\<close>

text \<open>
  A run has failed when its classification is not normal or its exit code is not 0: the
  test that \<^verbatim>\<open>runPlaybooks\<close> applies to pre and post playbooks.
\<close>

definition run_failed :: "ansible_run \<Rightarrow> bool" where
  "run_failed x = (run_result x \<noteq> RESULT_NORMAL \<or> run_code x \<noteq> Some 0)"

text \<open>The runs that a call added to the record.\<close>

definition new_runs :: "'w AnsibleJob \<Rightarrow> 'w AnsibleJob \<Rightarrow> ansible_run list" where
  "new_runs s s' = drop (length (ansible_runs s)) (ansible_runs s')"

text \<open>
  The runs of the pre phase are runs of the first pre playbooks in their order, numbered
  from 0, none but the last of which has failed. The runs of the post phase are runs of
  all post playbooks in their order, numbered from 0, each with the same value of
  \<^verbatim>\<open>success\<close>. The run of the main phase is the run of the selected playbook.
\<close>

definition pre_runs_ok :: "JobDirPlaybook list \<Rightarrow> ansible_run list \<Rightarrow> bool" where
  "pre_runs_ok pbs runs \<longleftrightarrow>
     length runs \<le> length pbs
     \<and> map run_playbook runs = take (length runs) pbs
     \<and> (\<forall>x \<in> set runs. run_phase x = Some ''pre'' \<and> run_success x = None)
     \<and> map run_index runs = map Some [0 ..< length runs]
     \<and> (\<forall>x \<in> set (butlast runs). \<not> run_failed x)"

definition post_runs_ok :: "JobDirPlaybook list \<Rightarrow> bool \<Rightarrow> ansible_run list \<Rightarrow> bool" where
  "post_runs_ok pbs su runs \<longleftrightarrow>
     map run_playbook runs = pbs
     \<and> (\<forall>x \<in> set runs. run_phase x = Some ''post'' \<and> run_success x = Some su)
     \<and> map run_index runs = map Some [0 ..< length pbs]"

definition main_run_ok :: "JobDirPlaybook option \<Rightarrow> ansible_run \<Rightarrow> bool" where
  "main_run_ok pb x \<longleftrightarrow>
     pb = Some (run_playbook x) \<and> run_phase x = Some ''run'' \<and> run_success x = None
     \<and> run_index x = None"

subsection \<open>Examples\<close>

text \<open>
  A job directory with one pre playbook, the selected playbook and one post playbook, and
  an environment whose world is a script: the results of the subprocesses still to come,
  and the lines appended to the job output file so far.
\<close>

definition example_playbook :: "string \<Rightarrow> JobDirPlaybook" where
  "example_playbook r =
     (new_JobDirPlaybook r)\<lparr>trusted := Some True, branch := Some ''master'',
        path := Some (path_join r ''playbook.yaml'')\<rparr>"

definition example_jobdir :: JobDir where
  "example_jobdir =
     \<lparr>keep = False, job_root = ''/job'', work_root = ''/job/work'',
      src_root = ''/job/work/src'', log_root = ''/job/work/logs'',
      ansible_root = ''/job/ansible'', trusted_root = ''/job/trusted'',
      result_data_file = ''/job/work/results.json'',
      known_hosts = ''/job/work/.ssh/known_hosts'',
      inventory = ''/job/ansible/inventory.yaml'', secrets = ''/job/ansible/secrets.yaml'',
      has_secrets = False,
      playbooks = [example_playbook ''/job/ansible/playbook_0''],
      playbook = Some (example_playbook ''/job/ansible/playbook_0''),
      pre_playbooks = [example_playbook ''/job/ansible/pre_playbook_0''],
      post_playbooks = [example_playbook ''/job/ansible/post_playbook_0''],
      job_output_file = ''/job/work/logs/job-output.txt'',
      trusted_projects = [], trusted_project_index = []\<rparr>"

definition script_env :: "(proc_result list \<times> string list) env" where
  "script_env =
     \<lparr>path_exists = (\<lambda>w p. False), path_isdir = (\<lambda>w p. False), listdir = (\<lambda>w p. []),
      path_abspath = (\<lambda>w p. p), path_realpath = (\<lambda>w p. p),
      makedirs = (\<lambda>p w. w), symlink = (\<lambda>a b w. Inr w), write_file = (\<lambda>f ls w. w),
      append_file = (\<lambda>f ls w. (fst w, snd w @ ls)),
      getProject = (\<lambda>c p. \<lparr>canonical_name = p, canonical_hostname = c, name = p,
         project_connection_name = c\<rparr>),
      merger_checkoutBranch = (\<lambda>r c p b w. w),
      is_aborted = (\<lambda>w. False),
      run_proc = (\<lambda>cmd cfg tr w.
         case fst w of
           [] \<Rightarrow> (\<lparr>stdout_lines = [], returncode = 0, watchdog_timed_out = None\<rparr>, w)
         | p # ps \<Rightarrow> (p, (ps, snd w))),
      verbose = False, library_dir = ''/lib'', action_dir = ''/action'',
      callback_dir = ''/callback'', lookup_dir = ''/lookup''\<rparr>"

definition exit_with :: "int \<Rightarrow> proc_result" where
  "exit_with n =
     \<lparr>stdout_lines = [''line'' @ [CHR 0x0A]], returncode = n, watchdog_timed_out = Some False\<rparr>"

definition example_job :: "proc_result list \<Rightarrow> (proc_result list \<times> string list) AnsibleJob" where
  "example_job script = \<lparr>jobdir = example_jobdir, world = (script, []), ansible_runs = []\<rparr>"

text \<open>
  A merger for the examples below: updating the project \<^verbatim>\<open>org/broken\<close> raises, every
  other update succeeds.
\<close>

definition updateRepo_failing :: "string \<Rightarrow> string \<Rightarrow> unit \<Rightarrow> (error + unit) \<times> unit" where
  "updateRepo_failing cn pn m =
     (if pn = ''org/broken'' then (Inl (OtherException ''GitCommandError''), m)
      else (Inr (), m))"

section \<open>Results\<close>

subsection \<open>Results about checkoutBranch\<close>

text \<open>
  Claim C9. \<^verbatim>\<open>checkoutBranch\<close> checks out the first existing branch in the order project
  override branch, job branch, zuul branch, project default branch; when only the default
  branch exists it is the one checked out; when none of the four exists the call raises
  \<^verbatim>\<open>ExecutorError\<close>. Branch names of a repository are not empty (the code skips an empty
  zuul branch).
\<close>

theorem checkoutBranch_priority:
  assumes "[] \<notin> set (branches repo)"
  shows "checkoutBranch repo pn zb jb pob pdb =
           (case first_existing [pob, jb, zb, pdb] (branches repo) of
              Some b \<Rightarrow> Inr (repo\<lparr>checked_out := Some b\<rparr>)
            | None \<Rightarrow> Inl (ExecutorError (''Project '' @ pn @ '' does not have the ''
                  @ ''default branch '' @ py_str pdb)))
         \<and> (\<not> py_in pob (branches repo) \<and> \<not> py_in jb (branches repo)
             \<and> \<not> py_in zb (branches repo) \<and> pdb = Some d \<and> d \<in> set (branches repo)
            \<longrightarrow> checkoutBranch repo pn zb jb pob pdb = Inr (repo\<lparr>checked_out := Some d\<rparr>))
         \<and> (\<not> py_in pob (branches repo) \<and> \<not> py_in jb (branches repo)
             \<and> \<not> py_in zb (branches repo) \<and> \<not> py_in pdb (branches repo)
            \<longrightarrow> (\<exists>msg. checkoutBranch repo pn zb jb pob pdb = Inl (ExecutorError msg)))"
  using assms
  by (auto simp: checkoutBranch_def checkoutLocalBranch_def py_in_def py_bool_str_def
      split: option.splits)

text \<open>
  The theorem at a repository whose only branch is \<^verbatim>\<open>master\<close>, with an override branch
  \<^verbatim>\<open>stable\<close>, no job branch and a zuul branch \<^verbatim>\<open>feature\<close>: the default branch is taken.
\<close>

theorem checkoutBranch_priority_witness:
  "[] \<notin> set (branches \<lparr>branches = [''master''], checked_out = None\<rparr>)
   \<and> \<not> py_in (Some ''stable'') [''master''] \<and> \<not> py_in None [''master'']
   \<and> \<not> py_in (Some ''feature'') [''master'']
   \<and> checkoutBranch \<lparr>branches = [''master''], checked_out = None\<rparr> ''org/project''
        (Some ''feature'') None (Some ''stable'') (Some ''master'')
      = Inr \<lparr>branches = [''master''], checked_out = Some ''master''\<rparr>"
  using checkoutBranch_priority [where repo = "\<lparr>branches = [''master''], checked_out = None\<rparr>"
      and pob = "Some ''stable''" and jb = None and zb = "Some ''feature''"
      and pdb = "Some ''master''" and d = "''master''" and pn = "''org/project''"]
  by (simp add: py_in_def)

subsection \<open>Results about the update queue\<close>

lemma item_eq_Some:
  "item_eq (Some t) x \<longleftrightarrow> (\<exists>u. x = Some u \<and> task_key u = task_key t)"
  by (auto simp: item_eq_def UpdateTask_eq_def task_key_def split: option.splits)

lemma put_scan_no_match:
  "\<forall>x \<in> set xs. \<not> item_eq item x \<Longrightarrow> put_scan item xs ret = ret"
  by (induction xs arbitrary: ret) auto

lemma put_scan_match:
  "\<exists>x \<in> set xs. item_eq item x
   \<Longrightarrow> put_scan item xs ret \<in> set xs \<and> item_eq item (put_scan item xs ret)"
proof (induction xs arbitrary: ret)
  case Nil
  then show ?case by simp
next
  case (Cons x xs)
  show ?case
  proof (cases "\<exists>y \<in> set xs. item_eq item y")
    case True
    then show ?thesis using Cons.IH by simp
  next
    case False
    then have "item_eq item x" using Cons.prems by auto
    moreover have "put_scan item xs x = x" using False by (simp add: put_scan_no_match)
    ultimately show ?thesis by simp
  qed
qed

lemma put_scan_append_last:
  "item_eq item x \<Longrightarrow> put_scan item (xs @ [x]) ret = x"
  by (induction xs arbitrary: ret) auto

lemma put_existing:
  assumes "Some u \<in> set (queue q)" "task_key u = task_key t"
  shows "\<exists>v. Some v \<in> set (queue q) \<and> task_key v = task_key t \<and> put (Some t) q = (Some v, q)"
proof -
  have ex: "\<exists>x \<in> set (queue q). item_eq (Some t) x"
    using assms by (auto simp: item_eq_Some)
  let ?r = "put_scan (Some t) (queue q) None"
  from put_scan_match [OF ex, of None]
  have "?r \<in> set (queue q)" and "item_eq (Some t) ?r" by simp_all
  then obtain v where "?r = Some v" "task_key v = task_key t" "Some v \<in> set (queue q)"
    by (auto simp: item_eq_Some)
  then show ?thesis by (auto simp: put_def Let_def)
qed

lemma put_new:
  assumes "\<not> (\<exists>u. Some u \<in> set (queue q) \<and> task_key u = task_key t)"
  shows "put (Some t) q = (Some t, q\<lparr>queue := queue q @ [Some t], notified := Suc (notified q)\<rparr>)"
proof -
  have "\<forall>x \<in> set (queue q). \<not> item_eq (Some t) x"
    using assms by (auto simp: item_eq_Some)
  then have "put_scan (Some t) (queue q) None = None" by (rule put_scan_no_match)
  then show ?thesis by (simp add: put_def Let_def)
qed

lemma item_eq_same_key:
  "task_key t' = task_key t \<Longrightarrow> item_eq (Some t') x = item_eq (Some t) x"
  by (simp add: item_eq_Some)

lemma put_scan_same_key:
  assumes "task_key t' = task_key t"
  shows "put_scan (Some t') xs ret = put_scan (Some t) xs ret"
proof (induction xs arbitrary: ret)
  case Nil
  show ?case by simp
next
  case (Cons x xs)
  have "item_eq (Some t') x = item_eq (Some t) x"
    using assms by (rule item_eq_same_key)
  then show ?case by (simp add: Cons.IH)
qed

lemma put_again:
  assumes "task_key t' = task_key t"
  shows "put (Some t') (snd (put (Some t) q)) = put (Some t) q"
proof (cases "put_scan (Some t) (queue q) None")
  case None
  have "item_eq (Some t') (Some t)" using assms by (simp add: item_eq_Some)
  then have "put_scan (Some t') (queue q @ [Some t]) None = Some t"
    by (rule put_scan_append_last)
  with None show ?thesis by (simp add: put_def Let_def)
next
  case (Some v)
  with put_scan_same_key [OF assms, of "queue q" None] show ?thesis
    by (simp add: put_def Let_def)
qed

text \<open>
  Claim C5. Submitting a task whose (connection name, project name) key is the key of a
  task in the queue returns that queued task and leaves the queue as it is; otherwise the
  new task is appended, one waiting consumer is notified and the new task is returned. A
  second submission of the same key, made while the first is still queued, returns the
  very task (and so the very event) that the first one got.
\<close>

theorem put_deduplicates:
  "(if \<exists>u. Some u \<in> set (queue q) \<and> task_key u = task_key t
    then \<exists>u. Some u \<in> set (queue q) \<and> task_key u = task_key t
           \<and> put (Some t) q = (Some u, q)
    else put (Some t) q
           = (Some t, q\<lparr>queue := queue q @ [Some t], notified := Suc (notified q)\<rparr>))
   \<and> (task_key t' = task_key t
        \<longrightarrow> put (Some t') (snd (put (Some t) q)) = put (Some t) q)"
proof (intro conjI impI)
  show "if \<exists>u. Some u \<in> set (queue q) \<and> task_key u = task_key t
    then \<exists>u. Some u \<in> set (queue q) \<and> task_key u = task_key t
           \<and> put (Some t) q = (Some u, q)
    else put (Some t) q
           = (Some t, q\<lparr>queue := queue q @ [Some t], notified := Suc (notified q)\<rparr>)"
  proof (cases "\<exists>u. Some u \<in> set (queue q) \<and> task_key u = task_key t")
    case True
    then obtain u where "Some u \<in> set (queue q)" "task_key u = task_key t" by blast
    then have "\<exists>v. Some v \<in> set (queue q) \<and> task_key v = task_key t
        \<and> put (Some t) q = (Some v, q)"
      by (rule put_existing)
    then show ?thesis unfolding if_P [OF True] .
  next
    case False
    show ?thesis unfolding if_not_P [OF False] using False by (rule put_new)
  qed
next
  assume "task_key t' = task_key t"
  then show "put (Some t') (snd (put (Some t) q)) = put (Some t) q"
    by (rule put_again)
qed

text \<open>
  The theorem at a queue that holds a task for \<^verbatim>\<open>gerrit\<close>, \<^verbatim>\<open>org/a\<close>: a second task
  for this key is not queued, the first one is returned.
\<close>

theorem put_deduplicates_witness:
  "put (Some \<lparr>connection_name = ''gerrit'', project_name = ''org/a'', event = 2\<rparr>)
     \<lparr>queue = [Some \<lparr>connection_name = ''gerrit'', project_name = ''org/a'', event = 1\<rparr>],
      notified = 1\<rparr>
   = (Some \<lparr>connection_name = ''gerrit'', project_name = ''org/a'', event = 1\<rparr>,
      \<lparr>queue = [Some \<lparr>connection_name = ''gerrit'', project_name = ''org/a'', event = 1\<rparr>],
       notified = 1\<rparr>)"
  using put_deduplicates [where
      t = "\<lparr>connection_name = ''gerrit'', project_name = ''org/a'', event = 2\<rparr>"
      and t' = "\<lparr>connection_name = ''gerrit'', project_name = ''org/a'', event = 2\<rparr>"
      and q = "\<lparr>queue = [Some \<lparr>connection_name = ''gerrit'', project_name = ''org/a'', event = 1\<rparr>],
      notified = 1\<rparr>"]
  by (simp add: task_key_def)

subsection \<open>Results about the update loop\<close>

text \<open>
  When \<^verbatim>\<open>updateRepo\<close> raises, \<^verbatim>\<open>_innerUpdateLoop\<close> raises as well and no event is set.
\<close>

lemma innerUpdateLoop_raise:
  assumes "get (update_queue s) = Some (Some task, q)"
    and "fst (updateRepo (connection_name task) (project_name task) (merger s)) = Inl e"
  shows "\<exists>s'. innerUpdateLoop updateRepo s = Some (Inl e, s')
           \<and> events_set s' = events_set s \<and> update_queue s' = q"
  using assms
  by (auto simp: innerUpdateLoop_def log_msg_def Let_def split: prod.splits sum.splits)

text \<open>
  Claim C4, evaluated. The queue holds a task whose update raises, then one whose update
  succeeds. The loop logs the exception and goes on to the second task, whose event is
  set; the event of the first task is never set, so a caller in its \<^verbatim>\<open>wait()\<close> stays
  there.
\<close>

theorem updateLoop_failed_task_not_completed:
  "updateLoop updateRepo_failing
     \<lparr>running = True,
      update_queue = \<lparr>queue =
         [Some \<lparr>connection_name = ''gerrit'', project_name = ''org/broken'', event = 1\<rparr>,
          Some \<lparr>connection_name = ''gerrit'', project_name = ''org/ok'', event = 2\<rparr>],
         notified = 2\<rparr>,
      events_set = {}, merger = (), server_log = []\<rparr>
   = \<lparr>running = True,
      update_queue = \<lparr>queue = [], notified = 2\<rparr>,
      events_set = {2}, merger = (),
      server_log = [''Updating repo gerrit/org/broken'', ''Exception in update thread:'',
         ''Updating repo gerrit/org/ok'', ''Finished updating repo gerrit/org/ok'']\<rparr>
   \<and> \<not> wait \<lparr>connection_name = ''gerrit'', project_name = ''org/broken'', event = 1\<rparr>
        (updateLoop updateRepo_failing
     \<lparr>running = True,
      update_queue = \<lparr>queue =
         [Some \<lparr>connection_name = ''gerrit'', project_name = ''org/broken'', event = 1\<rparr>,
          Some \<lparr>connection_name = ''gerrit'', project_name = ''org/ok'', event = 2\<rparr>],
         notified = 2\<rparr>,
      events_set = {}, merger = (), server_log = []\<rparr>)"
  by (simp add: updateLoop.simps innerUpdateLoop_def get_def updateRepo_failing_def
      log_msg_def setComplete_def wait_def Let_def)

subsection \<open>Results about runAnsible\<close>

lemma RESULT_distinct:
  "RESULT_NORMAL \<noteq> RESULT_TIMED_OUT" "RESULT_NORMAL \<noteq> RESULT_UNREACHABLE"
  "RESULT_NORMAL \<noteq> RESULT_ABORTED" "RESULT_TIMED_OUT \<noteq> RESULT_UNREACHABLE"
  "RESULT_TIMED_OUT \<noteq> RESULT_ABORTED" "RESULT_UNREACHABLE \<noteq> RESULT_ABORTED"
  by (simp_all add: RESULT_NORMAL_def RESULT_TIMED_OUT_def RESULT_UNREACHABLE_def
      RESULT_ABORTED_def)

lemma RESULT_MAP_dom:
  "dom RESULT_MAP = {RESULT_NORMAL, RESULT_TIMED_OUT, RESULT_UNREACHABLE, RESULT_ABORTED}"
  by (auto simp: RESULT_MAP_def)

lemma runAnsible_frame:
  "runAnsible e cmd timeout cfg tr s = (rc, s')
   \<Longrightarrow> jobdir s' = jobdir s \<and> ansible_runs s' = ansible_runs s"
  by (auto simp: runAnsible_def Let_def split: if_splits prod.splits)

text \<open>
  Claim C10. \<^verbatim>\<open>runAnsible\<close> returns one of the four classifications of
  \<^verbatim>\<open>RESULT_MAP\<close>; the second component is \<^verbatim>\<open>None\<close> unless the classification is
  normal; with the normal classification the subprocess was started and the second
  component is its exit status as it is, and exactly for exit status 4 the retained lines
  of output are appended to the job output file.
\<close>

theorem runAnsible_classification:
  "case runAnsible e cmd timeout cfg tr s of
     ((result, code), s') \<Rightarrow>
       result \<in> dom RESULT_MAP
       \<and> dom RESULT_MAP
           = {RESULT_NORMAL, RESULT_TIMED_OUT, RESULT_UNREACHABLE, RESULT_ABORTED}
       \<and> card (dom RESULT_MAP) = 4
       \<and> (result \<noteq> RESULT_NORMAL \<longrightarrow> code = None)
       \<and> (result = RESULT_NORMAL \<longrightarrow>
            \<not> is_aborted e (world s)
            \<and> (case run_proc e cmd cfg tr (world s) of
                 (p, w) \<Rightarrow>
                   code = Some (returncode p)
                   \<and> world s' =
                       (if returncode p = 4
                        then append_file e (job_output_file (jobdir s))
                               (parse_error_lines
                                  (take BUFFER_LINES_FOR_SYNTAX (stdout_lines p))) w
                        else w)))"
proof -
  have c: "card (dom RESULT_MAP) = 4"
    using RESULT_distinct by (simp add: RESULT_MAP_dom)
  show ?thesis
    using RESULT_distinct c
    by (auto simp: runAnsible_def Let_def RESULT_MAP_dom split: prod.splits)
qed

text \<open>
  The theorem at a run that prints the bytes of \<^verbatim>\<open>line\<close> with a line end and ends with
  exit status 4: the file gets the header and the \<^verbatim>\<open>repr\<close> of the bytes, in which the line
  end is a backslash and the letter n.
\<close>

theorem runAnsible_classification_witness:
  "fst (runAnsible script_env [] (Some 1800) ''cfg'' None (example_job [exit_with 4]))
     = (RESULT_NORMAL, Some 4)
   \<and> world (snd (runAnsible script_env [] (Some 1800) ''cfg'' None (example_job [exit_with 4])))
     = ([], ['' | ANSIBLE PARSE ERROR'' @ [CHR 0x0A],
             '' | b'' @ [CHR 0x27] @ ''line'' @ [CHR 0x5C] @ ''n'' @ [CHR 0x27, CHR 0x0A]])
   \<and> RESULT_NORMAL \<in> dom RESULT_MAP"
  using runAnsible_classification [where e = script_env and cmd = "[]"
      and timeout = "Some 1800" and cfg = "''cfg''" and tr = None
      and s = "example_job [exit_with 4]"]
  by (simp add: runAnsible_def script_env_def example_job_def exit_with_def Let_def
      py_bool_int_def parse_error_lines_def bytes_repr_def bytes_repr_char_def
      BUFFER_LINES_FOR_SYNTAX_def RESULT_MAP_dom)

subsection \<open>Results about runPlaybooks\<close>

text \<open>Each call of \<^verbatim>\<open>runAnsiblePlaybook\<close> adds one run to the record.\<close>

lemma runAnsiblePlaybook_run:
  assumes "runAnsiblePlaybook e pb timeout su ph ix s = ((res, code), s')"
  shows "ansible_runs s' = ansible_runs s @
           [\<lparr>run_playbook = pb, run_success = su, run_phase = ph, run_index = ix,
             run_result = res, run_code = code\<rparr>]
         \<and> jobdir s' = jobdir s"
proof -
  obtain rc s1 where r: "runAnsible e (playbook_cmd e (jobdir s) pb su ph ix) timeout
      (ansible_config pb) (trusted pb) s = (rc, s1)"
    by (cases "runAnsible e (playbook_cmd e (jobdir s) pb su ph ix) timeout
      (ansible_config pb) (trusted pb) s")
  from runAnsible_frame [OF r] have "jobdir s1 = jobdir s" "ansible_runs s1 = ansible_runs s"
    by simp_all
  with assms r show ?thesis
    by (auto simp: runAnsiblePlaybook_def split: prod.splits)
qed

text \<open>The two loops, by induction on the list of playbooks.\<close>

lemma run_pre_playbooks_runs:
  "run_pre_playbooks e timeout ix pbs s = (pf, s')
   \<Longrightarrow> \<exists>runs. ansible_runs s' = ansible_runs s @ runs \<and> jobdir s' = jobdir s
         \<and> length runs \<le> length pbs
         \<and> map run_playbook runs = take (length runs) pbs
         \<and> (\<forall>x \<in> set runs. run_phase x = Some ''pre'' \<and> run_success x = None)
         \<and> map run_index runs = map Some [ix ..< ix + length runs]
         \<and> (\<forall>x \<in> set (butlast runs). \<not> run_failed x)
         \<and> (if pf then runs \<noteq> [] \<and> run_failed (last runs)
            else length runs = length pbs \<and> (\<forall>x \<in> set runs. \<not> run_failed x))"
proof (induction pbs arbitrary: ix s)
  case Nil
  then show ?case by simp
next
  case (Cons pb pbs)
  obtain res code s1 where
    r: "runAnsiblePlaybook e pb timeout None (Some ''pre'') (Some ix) s = ((res, code), s1)"
    by (metis surj_pair)
  let ?x = "\<lparr>run_playbook = pb, run_success = None, run_phase = Some ''pre'',
      run_index = Some ix, run_result = res, run_code = code\<rparr>"
  from runAnsiblePlaybook_run [OF r]
  have s1: "ansible_runs s1 = ansible_runs s @ [?x]" "jobdir s1 = jobdir s" by simp_all
  show ?case
  proof (cases "res \<noteq> RESULT_NORMAL \<or> code \<noteq> Some 0")
    case True
    with Cons.prems r have "pf" "s' = s1" by auto
    moreover have "run_failed ?x" using True by (simp add: run_failed_def)
    ultimately show ?thesis using s1
      by (intro exI [of _ "[?x]"]) simp
  next
    case False
    with Cons.prems r have "run_pre_playbooks e timeout (Suc ix) pbs s1 = (pf, s')" by auto
    from Cons.IH [OF this] obtain runs where
      runs: "ansible_runs s' = ansible_runs s1 @ runs" "jobdir s' = jobdir s1"
        "length runs \<le> length pbs"
        "map run_playbook runs = take (length runs) pbs"
        "\<forall>x \<in> set runs. run_phase x = Some ''pre'' \<and> run_success x = None"
        "map run_index runs = map Some [Suc ix ..< Suc ix + length runs]"
        "\<forall>x \<in> set (butlast runs). \<not> run_failed x"
        "if pf then runs \<noteq> [] \<and> run_failed (last runs)
            else length runs = length pbs \<and> (\<forall>x \<in> set runs. \<not> run_failed x)"
      by blast
    have nf: "\<not> run_failed ?x" using False by (simp add: run_failed_def)
    have ix: "[ix ..< ix + length (?x # runs)] = ix # [Suc ix ..< Suc ix + length runs]"
      by (simp add: upt_rec)
    have bl: "\<forall>x \<in> set (butlast (?x # runs)). \<not> run_failed x"
      using nf runs(7) by (auto split: if_splits)
    show ?thesis
    proof (intro exI [of _ "?x # runs"] conjI)
      show "ansible_runs s' = ansible_runs s @ ?x # runs" using runs(1) s1 by simp
      show "jobdir s' = jobdir s" using runs(2) s1 by simp
      show "length (?x # runs) \<le> length (pb # pbs)" using runs(3) by simp
      show "map run_playbook (?x # runs) = take (length (?x # runs)) (pb # pbs)"
        using runs(4) by simp
      show "\<forall>x \<in> set (?x # runs). run_phase x = Some ''pre'' \<and> run_success x = None"
        using runs(5) by simp
      show "map run_index (?x # runs) = map Some [ix ..< ix + length (?x # runs)]"
        unfolding ix using runs(6) by simp
      show "\<forall>x \<in> set (butlast (?x # runs)). \<not> run_failed x" by (rule bl)
      show "if pf then ?x # runs \<noteq> [] \<and> run_failed (last (?x # runs))
            else length (?x # runs) = length (pb # pbs)
              \<and> (\<forall>x \<in> set (?x # runs). \<not> run_failed x)"
        using runs(8) nf by (auto split: if_splits)
    qed
  qed
qed

lemma run_post_playbooks_runs:
  "run_post_playbooks e timeout su pf ix pbs result s = (r, s')
   \<Longrightarrow> \<exists>runs. ansible_runs s' = ansible_runs s @ runs \<and> jobdir s' = jobdir s
         \<and> map run_playbook runs = pbs
         \<and> (\<forall>x \<in> set runs. run_phase x = Some ''post'' \<and> run_success x = Some su)
         \<and> map run_index runs = map Some [ix ..< ix + length pbs]
         \<and> r = (if \<not> pf \<and> (\<exists>x \<in> set runs. run_failed x)
                then Some ''POST_FAILURE'' else result)"
proof (induction pbs arbitrary: ix result s)
  case Nil
  then show ?case by simp
next
  case (Cons pb pbs)
  obtain res code s1 where
    r: "runAnsiblePlaybook e pb timeout (Some su) (Some ''post'') (Some ix) s
          = ((res, code), s1)"
    by (metis surj_pair)
  let ?x = "\<lparr>run_playbook = pb, run_success = Some su, run_phase = Some ''post'',
      run_index = Some ix, run_result = res, run_code = code\<rparr>"
  let ?result = "if res \<noteq> RESULT_NORMAL \<or> code \<noteq> Some 0
             then (if \<not> pf then Some ''POST_FAILURE'' else result) else result"
  from runAnsiblePlaybook_run [OF r]
  have s1: "ansible_runs s1 = ansible_runs s @ [?x]" "jobdir s1 = jobdir s" by simp_all
  have f: "run_failed ?x \<longleftrightarrow> res \<noteq> RESULT_NORMAL \<or> code \<noteq> Some 0"
    by (simp add: run_failed_def)
  from Cons.prems r
  have "run_post_playbooks e timeout su pf (Suc ix) pbs ?result s1 = (r, s')" by simp
  from Cons.IH [OF this] obtain runs where
    runs: "ansible_runs s' = ansible_runs s1 @ runs" "jobdir s' = jobdir s1"
      "map run_playbook runs = pbs"
      "\<forall>x \<in> set runs. run_phase x = Some ''post'' \<and> run_success x = Some su"
      "map run_index runs = map Some [Suc ix ..< Suc ix + length pbs]"
      "r = (if \<not> pf \<and> (\<exists>x \<in> set runs. run_failed x) then Some ''POST_FAILURE''
            else ?result)"
    by blast
  have ix: "[ix ..< ix + length (pb # pbs)] = ix # [Suc ix ..< Suc ix + length pbs]"
    by (simp add: upt_rec)
  show ?case
  proof (intro exI [of _ "?x # runs"] conjI)
    show "ansible_runs s' = ansible_runs s @ ?x # runs" using runs(1) s1 by simp
    show "jobdir s' = jobdir s" using runs(2) s1 by simp
    show "map run_playbook (?x # runs) = pb # pbs" using runs(3) by simp
    show "\<forall>x \<in> set (?x # runs). run_phase x = Some ''post'' \<and> run_success x = Some su"
      using runs(4) by simp
    show "map run_index (?x # runs) = map Some [ix ..< ix + length (pb # pbs)]"
      unfolding ix using runs(5) by simp
    show "r = (if \<not> pf \<and> (\<exists>x \<in> set (?x # runs). run_failed x)
               then Some ''POST_FAILURE'' else result)"
      using runs(6) f by (auto split: if_splits)
  qed
qed

text \<open>The ways in which \<^verbatim>\<open>runPlaybooks\<close> ends.\<close>

lemma runPlaybooks_cases:
  assumes "runPlaybooks e timeout s = (r, s')"
  shows "\<exists>pre mn post.
     ansible_runs s' = ansible_runs s @ pre @ mn @ post \<and> jobdir s' = jobdir s
     \<and> pre_runs_ok (pre_playbooks (jobdir s)) pre
     \<and> (if pre \<noteq> [] \<and> run_failed (last pre)
        then mn = [] \<and> post_runs_ok (post_playbooks (jobdir s)) False post \<and> r = Inr None
        else length pre = length (pre_playbooks (jobdir s))
          \<and> (\<forall>x \<in> set pre. \<not> run_failed x)
          \<and> (case playbook (jobdir s) of
               None \<Rightarrow> mn = [] \<and> post = [] \<and> r = Inl (OtherException ''AttributeError'')
             | Some pb \<Rightarrow>
                 (\<exists>m. mn = [m] \<and> main_run_ok (Some pb) m
                   \<and> (if run_result m \<noteq> RESULT_NORMAL
                      then post = []
                        \<and> r = Inr (if run_result m = RESULT_TIMED_OUT then Some ''TIMED_OUT''
                                   else if run_result m = RESULT_ABORTED then Some ''ABORTED''
                                   else None)
                      else post_runs_ok (post_playbooks (jobdir s)) (run_code m = Some 0) post
                        \<and> r = Inr (if \<exists>x \<in> set post. run_failed x then Some ''POST_FAILURE''
                                   else if run_code m = Some 0 then Some ''SUCCESS''
                                   else Some ''FAILURE'')))))"
proof -
  obtain pf s1 where pre: "run_pre_playbooks e timeout 0 (pre_playbooks (jobdir s)) s = (pf, s1)"
    by (metis surj_pair)
  from run_pre_playbooks_runs [OF pre] obtain runs where
    runs: "ansible_runs s1 = ansible_runs s @ runs" "jobdir s1 = jobdir s"
      "pre_runs_ok (pre_playbooks (jobdir s)) runs"
      "if pf then runs \<noteq> [] \<and> run_failed (last runs)
       else length runs = length (pre_playbooks (jobdir s)) \<and> (\<forall>x \<in> set runs. \<not> run_failed x)"
    unfolding pre_runs_ok_def by auto
  show ?thesis
  proof (cases pf)
    case True
    obtain r3 s3 where post: "run_post_playbooks e timeout False True 0
        (post_playbooks (jobdir s1)) None s1 = (r3, s3)"
      by (metis surj_pair)
    from assms pre True post have rs: "r = Inr r3" "s' = s3"
      by (simp_all add: runPlaybooks_def)
    from run_post_playbooks_runs [OF post] obtain ps where
      ps: "ansible_runs s3 = ansible_runs s1 @ ps" "jobdir s3 = jobdir s1"
        "post_runs_ok (post_playbooks (jobdir s1)) False ps" "r3 = None"
      unfolding post_runs_ok_def by auto
    show ?thesis
      using runs True ps rs
      by (intro exI [of _ runs] exI [of _ "[]"] exI [of _ ps]) simp
  next
    case False
    note nf = False
    then have allok: "length runs = length (pre_playbooks (jobdir s))"
      "\<forall>x \<in> set runs. \<not> run_failed x"
      using runs(4) by simp_all
    then have nolast: "\<not> (runs \<noteq> [] \<and> run_failed (last runs))"
      using last_in_set by blast
    show ?thesis
    proof (cases "playbook (jobdir s1)")
      case None
      with assms pre nf have "r = Inl (OtherException ''AttributeError'')" "s' = s1"
        by (simp_all add: runPlaybooks_def)
      then show ?thesis using runs allok nolast None
        by (intro exI [of _ runs] exI [of _ "[]"] exI [of _ "[]"]) simp
    next
      case (Some pb)
      obtain res code s2 where
        m: "runAnsiblePlaybook e pb timeout None (Some ''run'') None s1 = ((res, code), s2)"
        by (metis surj_pair)
      let ?m = "\<lparr>run_playbook = pb, run_success = None, run_phase = Some ''run'',
          run_index = None, run_result = res, run_code = code\<rparr>"
      from runAnsiblePlaybook_run [OF m]
      have s2: "ansible_runs s2 = ansible_runs s1 @ [?m]" "jobdir s2 = jobdir s1" by simp_all
      have mok: "main_run_ok (Some pb) ?m"
        by (simp add: main_run_ok_def)
      have pb: "playbook (jobdir s) = Some pb" using Some runs(2) by simp
      show ?thesis
      proof (cases "res = RESULT_NORMAL")
        case False
        with assms pre nf Some m
        have "r = Inr (if res = RESULT_TIMED_OUT then Some ''TIMED_OUT''
                                else if res = RESULT_ABORTED then Some ''ABORTED''
                                else None)" "s' = s2"
          by (auto simp: runPlaybooks_def split: if_splits)
        then show ?thesis using runs(1,2,3) allok nolast mok s2 False pb
          by (intro exI [of _ runs] exI [of _ "[?m]"] exI [of _ "[]"]) simp
      next
        case True
        obtain r3 s3 where post: "run_post_playbooks e timeout (code = Some 0) False 0
            (post_playbooks (jobdir s2))
            (if code = Some 0 then Some ''SUCCESS'' else Some ''FAILURE'') s2 = (r3, s3)"
          by (metis surj_pair)
        have ne: "RESULT_NORMAL \<noteq> RESULT_TIMED_OUT" "RESULT_NORMAL \<noteq> RESULT_ABORTED"
          by (simp_all add: RESULT_NORMAL_def RESULT_TIMED_OUT_def RESULT_ABORTED_def)
        from assms pre nf Some m True post ne have rs: "r = Inr r3" "s' = s3"
          by (simp_all add: runPlaybooks_def Let_def)
        from run_post_playbooks_runs [OF post] obtain ps where
          ps: "ansible_runs s3 = ansible_runs s2 @ ps" "jobdir s3 = jobdir s2"
            "post_runs_ok (post_playbooks (jobdir s2)) (code = Some 0) ps"
            "r3 = (if \<exists>x \<in> set ps. run_failed x then Some ''POST_FAILURE''
                   else if code = Some 0 then Some ''SUCCESS'' else Some ''FAILURE'')"
          unfolding post_runs_ok_def by auto
        show ?thesis
          using runs(1,2,3) allok nolast mok s2 True ps rs pb
          by (intro exI [of _ runs] exI [of _ "[?m]"] exI [of _ ps]) simp
      qed
    qed
  qed
qed

lemma new_runs_append:
  "ansible_runs s' = ansible_runs s @ xs \<Longrightarrow> new_runs s s' = xs"
  by (simp add: new_runs_def)

lemma main_run_phase: "main_run_ok pb m \<Longrightarrow> run_phase m = Some ''run''"
  by (simp add: main_run_ok_def)

lemma pre_runs_phase: "pre_runs_ok pbs runs \<Longrightarrow> x \<in> set runs \<Longrightarrow> run_phase x = Some ''pre''"
  by (simp add: pre_runs_ok_def)

lemma post_runs_phase:
  "post_runs_ok pbs su runs \<Longrightarrow> x \<in> set runs \<Longrightarrow> run_phase x = Some ''post''"
  by (simp add: post_runs_ok_def)

lemma runPlaybooks_pre_failed:
  assumes "runPlaybooks e timeout s = (r, s')"
    and "\<exists>x \<in> set (new_runs s s'). run_phase x = Some ''pre'' \<and> run_failed x"
  shows "\<exists>pre post. new_runs s s' = pre @ post
       \<and> pre_runs_ok (pre_playbooks (jobdir s)) pre \<and> pre \<noteq> [] \<and> run_failed (last pre)
       \<and> post_runs_ok (post_playbooks (jobdir s)) False post \<and> r = Inr None"
proof -
  from runPlaybooks_cases [OF assms(1)] obtain pre mn post where
    c: "ansible_runs s' = ansible_runs s @ pre @ mn @ post"
      "pre_runs_ok (pre_playbooks (jobdir s)) pre"
      "if pre \<noteq> [] \<and> run_failed (last pre)
        then mn = [] \<and> post_runs_ok (post_playbooks (jobdir s)) False post \<and> r = Inr None
        else length pre = length (pre_playbooks (jobdir s))
          \<and> (\<forall>x \<in> set pre. \<not> run_failed x)
          \<and> (case playbook (jobdir s) of
               None \<Rightarrow> mn = [] \<and> post = [] \<and> r = Inl (OtherException ''AttributeError'')
             | Some pb \<Rightarrow>
                 (\<exists>m. mn = [m] \<and> main_run_ok (Some pb) m
                   \<and> (if run_result m \<noteq> RESULT_NORMAL
                      then post = []
                        \<and> r = Inr (if run_result m = RESULT_TIMED_OUT then Some ''TIMED_OUT''
                                   else if run_result m = RESULT_ABORTED then Some ''ABORTED''
                                   else None)
                      else post_runs_ok (post_playbooks (jobdir s)) (run_code m = Some 0) post
                        \<and> r = Inr (if \<exists>x \<in> set post. run_failed x then Some ''POST_FAILURE''
                                   else if run_code m = Some 0 then Some ''SUCCESS''
                                   else Some ''FAILURE''))))"
    by blast
  have new: "new_runs s s' = pre @ mn @ post" using c(1) by (rule new_runs_append)
  have failed: "pre \<noteq> [] \<and> run_failed (last pre)"
  proof (rule ccontr)
    assume n: "\<not> (pre \<noteq> [] \<and> run_failed (last pre))"
    with c(3) have ok: "\<forall>x \<in> set pre. \<not> run_failed x" by simp
    have mn: "\<forall>x \<in> set mn. run_phase x = Some ''run''"
      using c(3) n by (auto split: option.splits dest: main_run_phase)
    have post: "\<forall>x \<in> set post. run_phase x = Some ''post''"
      using c(3) n by (auto split: option.splits if_splits dest: post_runs_phase)
    from assms(2) new obtain x where
      x: "x \<in> set pre \<union> set mn \<union> set post" "run_phase x = Some ''pre''" "run_failed x"
      by auto
    with ok mn post show False by auto
  qed
  with c(3) have e: "mn = []" "post_runs_ok (post_playbooks (jobdir s)) False post"
    "r = Inr None" by simp_all
  show ?thesis
    using new e c(2) failed by (intro exI [of _ pre] exI [of _ post]) simp
qed

lemma runPlaybooks_pre_succeeded:
  assumes "runPlaybooks e timeout s = (r, s')"
    and "\<forall>x \<in> set (new_runs s s'). run_phase x = Some ''pre'' \<longrightarrow> \<not> run_failed x"
    and "playbook (jobdir s) = Some pb"
  shows "\<exists>pre m post. new_runs s s' = pre @ [m] @ post
       \<and> pre_runs_ok (pre_playbooks (jobdir s)) pre
       \<and> length pre = length (pre_playbooks (jobdir s))
       \<and> main_run_ok (Some pb) m
       \<and> (if run_result m \<noteq> RESULT_NORMAL
          then post = []
            \<and> r = Inr (if run_result m = RESULT_TIMED_OUT then Some ''TIMED_OUT''
                       else if run_result m = RESULT_ABORTED then Some ''ABORTED''
                       else None)
          else post_runs_ok (post_playbooks (jobdir s)) (run_code m = Some 0) post
            \<and> r = Inr (if \<exists>x \<in> set post. run_failed x then Some ''POST_FAILURE''
                       else if run_code m = Some 0 then Some ''SUCCESS''
                       else Some ''FAILURE''))"
proof -
  from runPlaybooks_cases [OF assms(1)] obtain pre mn post where
    c: "ansible_runs s' = ansible_runs s @ pre @ mn @ post"
      "pre_runs_ok (pre_playbooks (jobdir s)) pre"
      "if pre \<noteq> [] \<and> run_failed (last pre)
        then mn = [] \<and> post_runs_ok (post_playbooks (jobdir s)) False post \<and> r = Inr None
        else length pre = length (pre_playbooks (jobdir s))
          \<and> (\<forall>x \<in> set pre. \<not> run_failed x)
          \<and> (case playbook (jobdir s) of
               None \<Rightarrow> mn = [] \<and> post = [] \<and> r = Inl (OtherException ''AttributeError'')
             | Some pb \<Rightarrow>
                 (\<exists>m. mn = [m] \<and> main_run_ok (Some pb) m
                   \<and> (if run_result m \<noteq> RESULT_NORMAL
                      then post = []
                        \<and> r = Inr (if run_result m = RESULT_TIMED_OUT then Some ''TIMED_OUT''
                                   else if run_result m = RESULT_ABORTED then Some ''ABORTED''
                                   else None)
                      else post_runs_ok (post_playbooks (jobdir s)) (run_code m = Some 0) post
                        \<and> r = Inr (if \<exists>x \<in> set post. run_failed x then Some ''POST_FAILURE''
                                   else if run_code m = Some 0 then Some ''SUCCESS''
                                   else Some ''FAILURE''))))"
    by blast
  have new: "new_runs s s' = pre @ mn @ post" using c(1) by (rule new_runs_append)
  have ok: "\<not> (pre \<noteq> [] \<and> run_failed (last pre))"
  proof
    assume f: "pre \<noteq> [] \<and> run_failed (last pre)"
    then have "last pre \<in> set (new_runs s s')" using new by simp
    moreover have "run_phase (last pre) = Some ''pre''"
      using f c(2) by (simp add: pre_runs_phase)
    ultimately show False using assms(2) f by blast
  qed
  with c(3) assms(3) obtain m where
    m: "length pre = length (pre_playbooks (jobdir s))" "mn = [m]" "main_run_ok (Some pb) m"
      "if run_result m \<noteq> RESULT_NORMAL
          then post = []
            \<and> r = Inr (if run_result m = RESULT_TIMED_OUT then Some ''TIMED_OUT''
                       else if run_result m = RESULT_ABORTED then Some ''ABORTED''
                       else None)
          else post_runs_ok (post_playbooks (jobdir s)) (run_code m = Some 0) post
            \<and> r = Inr (if \<exists>x \<in> set post. run_failed x then Some ''POST_FAILURE''
                       else if run_code m = Some 0 then Some ''SUCCESS''
                       else Some ''FAILURE'')"
    by auto
  show ?thesis
    using new m c(2) by (intro exI [of _ pre] exI [of _ m] exI [of _ post]) simp
qed

text \<open>The example job on four scripts.\<close>

lemma example_jobdir_fields:
  "pre_playbooks example_jobdir = [example_playbook ''/job/ansible/pre_playbook_0'']"
  "post_playbooks example_jobdir = [example_playbook ''/job/ansible/post_playbook_0'']"
  "playbook example_jobdir = Some (example_playbook ''/job/ansible/playbook_0'')"
  "job_output_file example_jobdir = ''/job/work/logs/job-output.txt''"
  by (simp_all add: example_jobdir_def)

lemma example_job_fields:
  "ansible_runs (example_job script) = []" "jobdir (example_job script) = example_jobdir"
  by (simp_all add: example_job_def)

lemmas example_run_defs = runPlaybooks_def runAnsiblePlaybook_def runAnsible_def
  script_env_def example_job_def exit_with_def Let_def py_bool_int_def example_jobdir_fields
  RESULT_NORMAL_def RESULT_TIMED_OUT_def RESULT_UNREACHABLE_def RESULT_ABORTED_def

lemma example_run_pre_failure:
  "runPlaybooks script_env (Some 1800) (example_job [exit_with 1, exit_with 0])
   = (Inr None,
      \<lparr>jobdir = example_jobdir, world = ([], []),
       ansible_runs =
         [\<lparr>run_playbook = example_playbook ''/job/ansible/pre_playbook_0'',
           run_success = None, run_phase = Some ''pre'', run_index = Some 0,
           run_result = 1, run_code = Some 1\<rparr>,
          \<lparr>run_playbook = example_playbook ''/job/ansible/post_playbook_0'',
           run_success = Some False, run_phase = Some ''post'', run_index = Some 0,
           run_result = 1, run_code = Some 0\<rparr>]\<rparr>)"
  by (simp add: example_run_defs)

lemma example_run_unreachable:
  "runPlaybooks script_env (Some 1800) (example_job [exit_with 0, exit_with 3])
   = (Inr None,
      \<lparr>jobdir = example_jobdir, world = ([], []),
       ansible_runs =
         [\<lparr>run_playbook = example_playbook ''/job/ansible/pre_playbook_0'',
           run_success = None, run_phase = Some ''pre'', run_index = Some 0,
           run_result = 1, run_code = Some 0\<rparr>,
          \<lparr>run_playbook = example_playbook ''/job/ansible/playbook_0'',
           run_success = None, run_phase = Some ''run'', run_index = None,
           run_result = 3, run_code = None\<rparr>]\<rparr>)"
  by (simp add: example_run_defs)

lemma example_run_post_failure:
  "runPlaybooks script_env (Some 1800) (example_job [exit_with 0, exit_with 0, exit_with 2])
   = (Inr (Some ''POST_FAILURE''),
      \<lparr>jobdir = example_jobdir, world = ([], []),
       ansible_runs =
         [\<lparr>run_playbook = example_playbook ''/job/ansible/pre_playbook_0'',
           run_success = None, run_phase = Some ''pre'', run_index = Some 0,
           run_result = 1, run_code = Some 0\<rparr>,
          \<lparr>run_playbook = example_playbook ''/job/ansible/playbook_0'',
           run_success = None, run_phase = Some ''run'', run_index = None,
           run_result = 1, run_code = Some 0\<rparr>,
          \<lparr>run_playbook = example_playbook ''/job/ansible/post_playbook_0'',
           run_success = Some True, run_phase = Some ''post'', run_index = Some 0,
           run_result = 1, run_code = Some 2\<rparr>]\<rparr>)"
  by (simp add: example_run_defs)

lemma example_run_pre_and_post_failure:
  "runPlaybooks script_env (Some 1800) (example_job [exit_with 1, exit_with 2])
   = (Inr None,
      \<lparr>jobdir = example_jobdir, world = ([], []),
       ansible_runs =
         [\<lparr>run_playbook = example_playbook ''/job/ansible/pre_playbook_0'',
           run_success = None, run_phase = Some ''pre'', run_index = Some 0,
           run_result = 1, run_code = Some 1\<rparr>,
          \<lparr>run_playbook = example_playbook ''/job/ansible/post_playbook_0'',
           run_success = Some False, run_phase = Some ''post'', run_index = Some 0,
           run_result = 1, run_code = Some 2\<rparr>]\<rparr>)"
  by (simp add: example_run_defs)

lemmas example_runs = example_run_pre_failure example_run_unreachable
  example_run_post_failure example_run_pre_and_post_failure example_jobdir_fields
  example_job_fields

text \<open>
  Claim C1. When a pre playbook fails (its classification is not normal or its exit code
  is not 0), the result is unset, the main playbook is not run, the pre phase has stopped
  at this first failure, and after it every post playbook is run, in order, with
  \<^verbatim>\<open>success=False\<close>.
\<close>

theorem runPlaybooks_pre_failure:
  assumes "runPlaybooks e timeout s = (r, s')"
    and "\<exists>x \<in> set (new_runs s s'). run_phase x = Some ''pre'' \<and> run_failed x"
  shows "r = Inr None
    \<and> (\<forall>x \<in> set (new_runs s s'). run_phase x \<noteq> Some ''run'')
    \<and> (\<exists>pre post. new_runs s s' = pre @ post
          \<and> pre \<noteq> [] \<and> map run_playbook pre = take (length pre) (pre_playbooks (jobdir s))
          \<and> (\<forall>x \<in> set pre. run_phase x = Some ''pre'')
          \<and> run_failed (last pre) \<and> (\<forall>x \<in> set (butlast pre). \<not> run_failed x)
          \<and> map run_playbook post = post_playbooks (jobdir s)
          \<and> map run_index post = map Some [0 ..< length (post_playbooks (jobdir s))]
          \<and> (\<forall>x \<in> set post. run_phase x = Some ''post'' \<and> run_success x = Some False))"
proof -
  from runPlaybooks_pre_failed [OF assms] obtain pre post where
    c: "new_runs s s' = pre @ post" "pre_runs_ok (pre_playbooks (jobdir s)) pre"
      "pre \<noteq> []" "run_failed (last pre)"
      "post_runs_ok (post_playbooks (jobdir s)) False post" "r = Inr None"
    by blast
  have "\<forall>x \<in> set (new_runs s s'). run_phase x \<noteq> Some ''run''"
    using c(1,2,5) by (auto dest: pre_runs_phase post_runs_phase)
  moreover have "\<exists>pre post. new_runs s s' = pre @ post
          \<and> pre \<noteq> [] \<and> map run_playbook pre = take (length pre) (pre_playbooks (jobdir s))
          \<and> (\<forall>x \<in> set pre. run_phase x = Some ''pre'')
          \<and> run_failed (last pre) \<and> (\<forall>x \<in> set (butlast pre). \<not> run_failed x)
          \<and> map run_playbook post = post_playbooks (jobdir s)
          \<and> map run_index post = map Some [0 ..< length (post_playbooks (jobdir s))]
          \<and> (\<forall>x \<in> set post. run_phase x = Some ''post'' \<and> run_success x = Some False)"
    using c
    by (intro exI [of _ pre] exI [of _ post]) (simp add: pre_runs_ok_def post_runs_ok_def)
  ultimately show ?thesis using c(6) by blast
qed

text \<open>The theorem at the example job whose pre playbook exits with status 1.\<close>

theorem runPlaybooks_pre_failure_witness:
  "(\<exists>x \<in> set (new_runs (example_job [exit_with 1, exit_with 0])
       (snd (runPlaybooks script_env (Some 1800) (example_job [exit_with 1, exit_with 0])))).
      run_phase x = Some ''pre'' \<and> run_failed x)
   \<and> fst (runPlaybooks script_env (Some 1800) (example_job [exit_with 1, exit_with 0]))
       = Inr None
   \<and> \<not> (\<exists>x \<in> set (new_runs (example_job [exit_with 1, exit_with 0])
       (snd (runPlaybooks script_env (Some 1800) (example_job [exit_with 1, exit_with 0])))).
      run_phase x = Some ''run'')
   \<and> map run_playbook (new_runs (example_job [exit_with 1, exit_with 0])
       (snd (runPlaybooks script_env (Some 1800) (example_job [exit_with 1, exit_with 0]))))
       = [example_playbook ''/job/ansible/pre_playbook_0'',
          example_playbook ''/job/ansible/post_playbook_0'']"
proof -
  let ?s = "example_job [exit_with 1, exit_with 0]"
  let ?R = "runPlaybooks script_env (Some 1800) ?s"
  have h1: "?R = (fst ?R, snd ?R)" by simp
  have h2: "\<exists>x \<in> set (new_runs ?s (snd ?R)). run_phase x = Some ''pre'' \<and> run_failed x"
    by (simp add: example_runs new_runs_def run_failed_def RESULT_NORMAL_def)
  have ev: "map run_playbook (new_runs ?s (snd ?R))
       = [example_playbook ''/job/ansible/pre_playbook_0'',
          example_playbook ''/job/ansible/post_playbook_0'']"
    by (simp add: example_runs new_runs_def)
  from runPlaybooks_pre_failure [OF h1 h2]
  have "fst ?R = Inr None"
    and "\<forall>x \<in> set (new_runs ?s (snd ?R)). run_phase x \<noteq> Some ''run''"
    by blast+
  with h2 ev show ?thesis by blast
qed

text \<open>
  Claim C2. When the pre phase has succeeded, the selected playbook is run once after all
  pre playbooks. If its classification is \<^verbatim>\<open>RESULT_TIMED_OUT\<close> the result is
  \<^verbatim>\<open>TIMED_OUT\<close>, if it is \<^verbatim>\<open>RESULT_ABORTED\<close> the result is \<^verbatim>\<open>ABORTED\<close>, for any other
  classification that is not normal the result is unset; in all three cases no post
  playbook is run.
\<close>

theorem runPlaybooks_main_not_normal:
  assumes "runPlaybooks e timeout s = (r, s')"
    and "\<forall>x \<in> set (new_runs s s'). run_phase x = Some ''pre'' \<longrightarrow> \<not> run_failed x"
    and "playbook (jobdir s) = Some pb"
  shows "\<exists>pre m post. new_runs s s' = pre @ [m] @ post
      \<and> map run_playbook pre = pre_playbooks (jobdir s)
      \<and> (\<forall>x \<in> set pre. run_phase x = Some ''pre'')
      \<and> run_playbook m = pb \<and> run_phase m = Some ''run''
      \<and> (\<forall>x \<in> set post. run_phase x = Some ''post'')
      \<and> (run_result m = RESULT_TIMED_OUT \<longrightarrow> r = Inr (Some ''TIMED_OUT'') \<and> post = [])
      \<and> (run_result m = RESULT_ABORTED \<longrightarrow> r = Inr (Some ''ABORTED'') \<and> post = [])
      \<and> (run_result m \<notin> {RESULT_NORMAL, RESULT_TIMED_OUT, RESULT_ABORTED}
            \<longrightarrow> r = Inr None \<and> post = [])"
proof -
  from runPlaybooks_pre_succeeded [OF assms] obtain pre m post where
    c: "new_runs s s' = pre @ [m] @ post"
       "pre_runs_ok (pre_playbooks (jobdir s)) pre"
       "length pre = length (pre_playbooks (jobdir s))"
       "main_run_ok (Some pb) m"
       "if run_result m \<noteq> RESULT_NORMAL
          then post = []
            \<and> r = Inr (if run_result m = RESULT_TIMED_OUT then Some ''TIMED_OUT''
                       else if run_result m = RESULT_ABORTED then Some ''ABORTED''
                       else None)
          else post_runs_ok (post_playbooks (jobdir s)) (run_code m = Some 0) post
            \<and> r = Inr (if \<exists>x \<in> set post. run_failed x then Some ''POST_FAILURE''
                       else if run_code m = Some 0 then Some ''SUCCESS''
                       else Some ''FAILURE'')"
    by blast
  have pre: "map run_playbook pre = pre_playbooks (jobdir s)"
    "\<forall>x \<in> set pre. run_phase x = Some ''pre''"
    using c(2,3) by (simp_all add: pre_runs_ok_def)
  have m: "run_playbook m = pb" "run_phase m = Some ''run''"
    using c(4) by (simp_all add: main_run_ok_def)
  have post: "\<forall>x \<in> set post. run_phase x = Some ''post''"
    using c(5) by (auto split: if_splits dest: post_runs_phase)
  have res: "run_result m = RESULT_TIMED_OUT \<longrightarrow> r = Inr (Some ''TIMED_OUT'') \<and> post = []"
    "run_result m = RESULT_ABORTED \<longrightarrow> r = Inr (Some ''ABORTED'') \<and> post = []"
    "run_result m \<notin> {RESULT_NORMAL, RESULT_TIMED_OUT, RESULT_ABORTED}
            \<longrightarrow> r = Inr None \<and> post = []"
    using c(5) RESULT_distinct by (auto split: if_splits)
  show ?thesis
    using c(1) pre m post res by (intro exI [of _ pre] exI [of _ m] exI [of _ post]) simp
qed

text \<open>The theorem at the example job whose main playbook cannot reach its node.\<close>

theorem runPlaybooks_main_not_normal_witness:
  "\<not> (\<exists>x \<in> set (new_runs (example_job [exit_with 0, exit_with 3])
       (snd (runPlaybooks script_env (Some 1800) (example_job [exit_with 0, exit_with 3])))).
      run_phase x = Some ''pre'' \<and> run_failed x)
   \<and> playbook (jobdir (example_job [exit_with 0, exit_with 3]))
       = Some (example_playbook ''/job/ansible/playbook_0'')
   \<and> map run_result (new_runs (example_job [exit_with 0, exit_with 3])
       (snd (runPlaybooks script_env (Some 1800) (example_job [exit_with 0, exit_with 3]))))
       = [RESULT_NORMAL, RESULT_UNREACHABLE]
   \<and> fst (runPlaybooks script_env (Some 1800) (example_job [exit_with 0, exit_with 3]))
       = Inr None
   \<and> (\<exists>pre m. new_runs (example_job [exit_with 0, exit_with 3])
       (snd (runPlaybooks script_env (Some 1800) (example_job [exit_with 0, exit_with 3])))
       = pre @ [m] \<and> run_phase m = Some ''run'')"
proof -
  let ?s = "example_job [exit_with 0, exit_with 3]"
  let ?R = "runPlaybooks script_env (Some 1800) ?s"
  have h1: "?R = (fst ?R, snd ?R)" by simp
  have h2: "\<forall>x \<in> set (new_runs ?s (snd ?R)). run_phase x = Some ''pre'' \<longrightarrow> \<not> run_failed x"
    by (simp add: example_runs new_runs_def run_failed_def RESULT_NORMAL_def)
  have h3: "playbook (jobdir ?s) = Some (example_playbook ''/job/ansible/playbook_0'')"
    by (simp add: example_runs)
  have ev: "map run_result (new_runs ?s (snd ?R)) = [RESULT_NORMAL, RESULT_UNREACHABLE]"
    by (simp add: example_runs new_runs_def RESULT_NORMAL_def RESULT_UNREACHABLE_def)
  from runPlaybooks_main_not_normal [OF h1 h2 h3] obtain pre m post where
    c: "new_runs ?s (snd ?R) = pre @ [m] @ post"
      "map run_playbook pre = pre_playbooks (jobdir ?s)"
      "run_phase m = Some ''run''"
      "run_result m \<notin> {RESULT_NORMAL, RESULT_TIMED_OUT, RESULT_ABORTED}
            \<longrightarrow> fst ?R = Inr None \<and> post = []"
    by blast
  have "length pre = 1" using c(2) by (simp add: example_runs flip: length_map [of run_playbook])
  with c(1) ev have "run_result m = RESULT_UNREACHABLE"
    by (cases pre) simp_all
  with c(4) RESULT_distinct have "fst ?R = Inr None" "post = []" by auto
  with c(1,3) have "\<exists>pre m. new_runs ?s (snd ?R) = pre @ [m] \<and> run_phase m = Some ''run''"
    by auto
  with h2 h3 ev \<open>fst ?R = Inr None\<close> show ?thesis by blast
qed

text \<open>
  Claim C3. When the main playbook has ended with the normal classification, the result
  is \<^verbatim>\<open>POST_FAILURE\<close> if a post playbook has failed, and otherwise \<^verbatim>\<open>SUCCESS\<close> or
  \<^verbatim>\<open>FAILURE\<close> by the exit code of the main playbook. When a pre playbook has failed, the
  result is unset whatever the post playbooks do.
\<close>

theorem runPlaybooks_post_failure:
  assumes "runPlaybooks e timeout s = (r, s')"
  shows "(\<forall>m \<in> set (new_runs s s').
            run_phase m = Some ''run'' \<and> run_result m = RESULT_NORMAL \<longrightarrow>
            r = Inr (if \<exists>x \<in> set (new_runs s s'). run_phase x = Some ''post'' \<and> run_failed x
                     then Some ''POST_FAILURE''
                     else if run_code m = Some 0 then Some ''SUCCESS'' else Some ''FAILURE''))
       \<and> ((\<exists>x \<in> set (new_runs s s'). run_phase x = Some ''pre'' \<and> run_failed x)
            \<longrightarrow> r = Inr None)"
proof (intro conjI ballI impI)
  assume "\<exists>x \<in> set (new_runs s s'). run_phase x = Some ''pre'' \<and> run_failed x"
  from runPlaybooks_pre_failed [OF assms this] show "r = Inr None" by blast
next
  fix m
  assume m: "m \<in> set (new_runs s s')"
    "run_phase m = Some ''run'' \<and> run_result m = RESULT_NORMAL"
  have ok: "\<forall>x \<in> set (new_runs s s'). run_phase x = Some ''pre'' \<longrightarrow> \<not> run_failed x"
  proof (rule ccontr)
    assume "\<not> ?thesis"
    then have "\<exists>x \<in> set (new_runs s s'). run_phase x = Some ''pre'' \<and> run_failed x" by blast
    from runPlaybooks_pre_failed [OF assms this] obtain pre post where
      "new_runs s s' = pre @ post" "pre_runs_ok (pre_playbooks (jobdir s)) pre"
      "post_runs_ok (post_playbooks (jobdir s)) False post"
      by blast
    with m show False by (auto dest: pre_runs_phase post_runs_phase)
  qed
  have "playbook (jobdir s) \<noteq> None"
  proof
    assume n: "playbook (jobdir s) = None"
    from runPlaybooks_cases [OF assms] obtain pre mn post where
      c: "ansible_runs s' = ansible_runs s @ pre @ mn @ post"
      "pre_runs_ok (pre_playbooks (jobdir s)) pre"
      and c3: "if pre \<noteq> [] \<and> run_failed (last pre)
        then mn = [] \<and> post_runs_ok (post_playbooks (jobdir s)) False post \<and> r = Inr None
        else length pre = length (pre_playbooks (jobdir s))
          \<and> (\<forall>x \<in> set pre. \<not> run_failed x)
          \<and> (case playbook (jobdir s) of
               None \<Rightarrow> mn = [] \<and> post = [] \<and> r = Inl (OtherException ''AttributeError'')
             | Some pb \<Rightarrow>
                 (\<exists>m. mn = [m] \<and> main_run_ok (Some pb) m
                   \<and> (if run_result m \<noteq> RESULT_NORMAL
                      then post = []
                        \<and> r = Inr (if run_result m = RESULT_TIMED_OUT then Some ''TIMED_OUT''
                                   else if run_result m = RESULT_ABORTED then Some ''ABORTED''
                                   else None)
                      else post_runs_ok (post_playbooks (jobdir s)) (run_code m = Some 0) post
                        \<and> r = Inr (if \<exists>x \<in> set post. run_failed x then Some ''POST_FAILURE''
                                   else if run_code m = Some 0 then Some ''SUCCESS''
                                   else Some ''FAILURE''))))"
      by blast
    from c3 have "if pre \<noteq> [] \<and> run_failed (last pre)
        then mn = [] \<and> post_runs_ok (post_playbooks (jobdir s)) False post \<and> r = Inr None
        else mn = [] \<and> post = []"
      unfolding n by (simp split: if_splits)
    note c = c this
    have "new_runs s s' = pre @ mn @ post" using c(1) by (rule new_runs_append)
    with c(2,3) m show False
      by (auto split: if_splits dest: pre_runs_phase post_runs_phase)
  qed
  then obtain pb where pb: "playbook (jobdir s) = Some pb" by blast
  from runPlaybooks_pre_succeeded [OF assms ok pb] obtain pre m' post where
    c: "new_runs s s' = pre @ [m'] @ post"
       "pre_runs_ok (pre_playbooks (jobdir s)) pre"
       "main_run_ok (Some pb) m'"
       "if run_result m' \<noteq> RESULT_NORMAL
          then post = []
            \<and> r = Inr (if run_result m' = RESULT_TIMED_OUT then Some ''TIMED_OUT''
                       else if run_result m' = RESULT_ABORTED then Some ''ABORTED''
                       else None)
          else post_runs_ok (post_playbooks (jobdir s)) (run_code m' = Some 0) post
            \<and> r = Inr (if \<exists>x \<in> set post. run_failed x then Some ''POST_FAILURE''
                       else if run_code m' = Some 0 then Some ''SUCCESS''
                       else Some ''FAILURE'')"
    by blast
  have pre: "\<forall>x \<in> set pre. run_phase x = Some ''pre''"
    using c(2) by (simp add: pre_runs_ok_def)
  have post: "\<forall>x \<in> set post. run_phase x = Some ''post''"
    using c(4) by (auto split: if_splits dest: post_runs_phase)
  have mm: "m = m'" using m c(1) pre post by auto
  have "(\<exists>x \<in> set (new_runs s s'). run_phase x = Some ''post'' \<and> run_failed x)
      \<longleftrightarrow> (\<exists>x \<in> set post. run_failed x)"
    using c(1) pre post main_run_phase [OF c(3)] by auto
  then show "r = Inr (if \<exists>x \<in> set (new_runs s s'). run_phase x = Some ''post'' \<and> run_failed x
                     then Some ''POST_FAILURE''
                     else if run_code m = Some 0 then Some ''SUCCESS'' else Some ''FAILURE'')"
    using c(4) m(2) mm by simp
qed

text \<open>
  The theorem at the example job whose post playbook exits with status 2, once after a
  successful main playbook and once after a failed pre playbook.
\<close>

theorem runPlaybooks_post_failure_witness:
  "(\<exists>m \<in> set (new_runs (example_job [exit_with 0, exit_with 0, exit_with 2])
       (snd (runPlaybooks script_env (Some 1800)
          (example_job [exit_with 0, exit_with 0, exit_with 2])))).
      run_phase m = Some ''run'' \<and> run_result m = RESULT_NORMAL \<and> run_code m = Some 0)
   \<and> (\<exists>x \<in> set (new_runs (example_job [exit_with 0, exit_with 0, exit_with 2])
       (snd (runPlaybooks script_env (Some 1800)
          (example_job [exit_with 0, exit_with 0, exit_with 2])))).
      run_phase x = Some ''post'' \<and> run_failed x)
   \<and> fst (runPlaybooks script_env (Some 1800)
       (example_job [exit_with 0, exit_with 0, exit_with 2])) = Inr (Some ''POST_FAILURE'')
   \<and> (\<exists>x \<in> set (new_runs (example_job [exit_with 1, exit_with 2])
       (snd (runPlaybooks script_env (Some 1800) (example_job [exit_with 1, exit_with 2])))).
      run_phase x = Some ''pre'' \<and> run_failed x)
   \<and> (\<exists>x \<in> set (new_runs (example_job [exit_with 1, exit_with 2])
       (snd (runPlaybooks script_env (Some 1800) (example_job [exit_with 1, exit_with 2])))).
      run_phase x = Some ''post'' \<and> run_failed x)
   \<and> fst (runPlaybooks script_env (Some 1800) (example_job [exit_with 1, exit_with 2]))
       = Inr None"
proof -
  let ?s = "example_job [exit_with 0, exit_with 0, exit_with 2]"
  let ?R = "runPlaybooks script_env (Some 1800) ?s"
  let ?m = "\<lparr>run_playbook = example_playbook ''/job/ansible/playbook_0'',
           run_success = None, run_phase = Some ''run'', run_index = None,
           run_result = 1, run_code = Some 0\<rparr>"
  let ?t = "example_job [exit_with 1, exit_with 2]"
  let ?Q = "runPlaybooks script_env (Some 1800) ?t"
  have h1: "?R = (fst ?R, snd ?R)" by simp
  have m: "?m \<in> set (new_runs ?s (snd ?R))"
    "run_phase ?m = Some ''run'' \<and> run_result ?m = RESULT_NORMAL" "run_code ?m = Some 0"
    by (simp_all add: example_runs new_runs_def RESULT_NORMAL_def)
  have p: "\<exists>x \<in> set (new_runs ?s (snd ?R)). run_phase x = Some ''post'' \<and> run_failed x"
    by (simp add: example_runs new_runs_def run_failed_def RESULT_NORMAL_def)
  from runPlaybooks_post_failure [OF h1] m(1,2)
  have "fst ?R = Inr (if \<exists>x \<in> set (new_runs ?s (snd ?R)).
                           run_phase x = Some ''post'' \<and> run_failed x
                     then Some ''POST_FAILURE''
                     else if run_code ?m = Some 0 then Some ''SUCCESS'' else Some ''FAILURE'')"
    by blast
  then have r1: "fst ?R = Inr (Some ''POST_FAILURE'')" unfolding if_P [OF p] .
  have h2: "?Q = (fst ?Q, snd ?Q)" by simp
  have q: "\<exists>x \<in> set (new_runs ?t (snd ?Q)). run_phase x = Some ''pre'' \<and> run_failed x"
    "\<exists>x \<in> set (new_runs ?t (snd ?Q)). run_phase x = Some ''post'' \<and> run_failed x"
    by (simp_all add: example_runs new_runs_def run_failed_def RESULT_NORMAL_def)
  from runPlaybooks_post_failure [OF h2] q(1) have r2: "fst ?Q = Inr None" by blast
  have "\<exists>m \<in> set (new_runs ?s (snd ?R)).
      run_phase m = Some ''run'' \<and> run_result m = RESULT_NORMAL \<and> run_code m = Some 0"
    using m by blast
  with p r1 q r2 show ?thesis by blast
qed

end
